theory Spec2Isabelle
  imports Main "HOL-Library.Sublist"
begin

section \<open>The EC2 collaborator\<close>

text \<open>
  The script \<^verbatim>\<open>aws_vpc.py\<close> does nothing but call the EC2 control plane through a
  boto3 client and look at a few fields of the answers. The model keeps the client
  abstract: a record with one function for every client method the script calls. Each
  function takes the keyword arguments of the call and the provider's state, and returns
  either the exception the call raises or the part of the response the script reads,
  together with the provider's new state. A response that arrives has the keys its
  operation documents, so the subscripts of the script raise no \<^verbatim>\<open>KeyError\<close>.
\<close>

subsection \<open>Response dictionaries\<close>

text \<open>Only the keys the script reads are fields.\<close>

record vpc =
  VpcId :: string

record internet_gateway =
  InternetGatewayId :: string

record association =
  RouteTableAssociationId :: string

record route_table =
  RouteTableId :: string
  Associations :: "association list"

record subnet =
  SubnetId :: string

type_synonym tag = "string \<times> string"
  \<comment> \<open>\<^verbatim>\<open>{'Key': k, 'Value': v}\<close>\<close>

type_synonym filter_spec = "string \<times> string list"
  \<comment> \<open>\<^verbatim>\<open>{'Name': n, 'Values': vs}\<close>\<close>

datatype vpc_attribute = EnableDnsSupport bool | EnableDnsHostnames bool

datatype subnet_attribute = MapPublicIpOnLaunch bool

subsection \<open>Exceptions\<close>

text \<open>
  \<open>ClientError response operation\<close> is botocore's \<^verbatim>\<open>ClientError\<close>: \<^verbatim>\<open>e.response\<close>,
  the dictionary it was built with, and \<^verbatim>\<open>e.operation_name\<close>. Of the dictionary the
  model keeps \<^verbatim>\<open>['Error']['Code']\<close>, \<^verbatim>\<open>['Error']['Message']\<close> and
  \<^verbatim>\<open>['ResponseMetadata']\<close>, which the response of a failed call has and a dictionary
  written by hand need not have (\<open>None\<close>). Every other exception (a waiter that gives
  up, a region name botocore refuses, a connection that fails) is \<open>BotoCoreError\<close> with
  the name of its class, which is never \<^verbatim>\<open>ClientError\<close>.
\<close>

record error_response =
  Code :: string
  Message :: string
  ResponseMetadata :: "(string \<times> string) list option"

datatype error =
    ClientError error_response string
  | BotoCoreError string

text \<open>The class of an exception: what an \<^verbatim>\<open>except ClientError\<close> clause looks at.\<close>

fun exception_class :: "error \<Rightarrow> string" where
  "exception_class (ClientError response operation) = ''ClientError''"
| "exception_class (BotoCoreError class_name) = class_name"

subsection \<open>Requests\<close>

text \<open>One constructor for every client method the script calls, with its keyword arguments.\<close>

datatype call =
    CreateVpc string
  | WaitVpcAvailable "string list"
  | CreateTags "string list" "tag list"
  | ModifyVpcAttribute string vpc_attribute
  | DescribeVpcs "filter_spec list"
  | CreateInternetGateway
  | AttachInternetGateway string string
  | DescribeInternetGateways "filter_spec list"
  | CreateRouteTable string
  | CreateRoute string string string
  | DescribeRouteTables "filter_spec list"
  | CreateSubnet string string
  | AssociateRouteTable string string
  | ModifySubnetAttribute string subnet_attribute
  | DescribeSubnets "filter_spec list"
  | DisassociateRouteTable string
  | DeleteTags "string list"
  | DeleteRouteTable string
  | DetachInternetGateway string string
  | DeleteInternetGateway string
  | DeleteSubnet string
  | DeleteVpc string

type_synonym ('s, 'a) reply = "'s \<Rightarrow> (error + 'a) \<times> 's"

record 's ec2 =
  ec2_create_vpc :: "string \<Rightarrow> ('s, vpc) reply"
  ec2_wait_vpc_available :: "string list \<Rightarrow> ('s, unit) reply"
  ec2_create_tags :: "string list \<Rightarrow> tag list \<Rightarrow> ('s, unit) reply"
  ec2_modify_vpc_attribute :: "string \<Rightarrow> vpc_attribute \<Rightarrow> ('s, unit) reply"
  ec2_describe_vpcs :: "filter_spec list \<Rightarrow> ('s, vpc list) reply"
  ec2_create_internet_gateway :: "('s, internet_gateway) reply"
  ec2_attach_internet_gateway :: "string \<Rightarrow> string \<Rightarrow> ('s, unit) reply"
  ec2_describe_internet_gateways :: "filter_spec list \<Rightarrow> ('s, internet_gateway list) reply"
  ec2_create_route_table :: "string \<Rightarrow> ('s, route_table) reply"
  ec2_create_route :: "string \<Rightarrow> string \<Rightarrow> string \<Rightarrow> ('s, bool) reply"
  ec2_describe_route_tables :: "filter_spec list \<Rightarrow> ('s, route_table list) reply"
  ec2_create_subnet :: "string \<Rightarrow> string \<Rightarrow> ('s, subnet) reply"
  ec2_associate_route_table :: "string \<Rightarrow> string \<Rightarrow> ('s, string) reply"
  ec2_modify_subnet_attribute :: "string \<Rightarrow> subnet_attribute \<Rightarrow> ('s, unit) reply"
  ec2_describe_subnets :: "filter_spec list \<Rightarrow> ('s, subnet list) reply"
  ec2_disassociate_route_table :: "string \<Rightarrow> ('s, unit) reply"
  ec2_delete_tags :: "string list \<Rightarrow> ('s, unit) reply"
  ec2_delete_route_table :: "string \<Rightarrow> ('s, unit) reply"
  ec2_detach_internet_gateway :: "string \<Rightarrow> string \<Rightarrow> ('s, unit) reply"
  ec2_delete_internet_gateway :: "string \<Rightarrow> ('s, unit) reply"
  ec2_delete_subnet :: "string \<Rightarrow> ('s, unit) reply"
  ec2_delete_vpc :: "string \<Rightarrow> ('s, unit) reply"

text \<open>
  \<^verbatim>\<open>boto3.client('ec2', region_name=region)\<close> builds a client for a region. It sends
  nothing to the provider, but it raises when botocore refuses the region name.
  \<open>boto3\<close> is the function from the region to the client or the exception.
\<close>

type_synonym 's boto3 = "string \<Rightarrow> error + 's ec2"

subsection \<open>The world: the provider's state and the calls it has received\<close>

record 's world =
  calls :: "(string \<times> call) list"
  remote :: 's

type_synonym ('s, 'a) action = "'s world \<Rightarrow> (error + 'a) \<times> 's world"

definition return_value :: "'a \<Rightarrow> ('s, 'a) action" where
  "return_value x w = (Inr x, w)"

definition raise_error :: "error \<Rightarrow> ('s, 'a) action" where
  "raise_error e w = (Inl e, w)"

text \<open>Sequencing: an exception of the first statement leaves the function at once.\<close>

definition and_then :: "('s, 'a) action \<Rightarrow> ('a \<Rightarrow> ('s, 'b) action) \<Rightarrow> ('s, 'b) action" where
  "and_then m f w = (case m w of (Inl e, w') \<Rightarrow> (Inl e, w') | (Inr x, w') \<Rightarrow> f x w')"

text \<open>
  One client method call: the call is recorded with the client's region, whether it
  succeeds or raises, and the provider answers from its state.
\<close>

definition request :: "string \<Rightarrow> call \<Rightarrow> ('s, 'a) reply \<Rightarrow> ('s, 'a) action" where
  "request region c answer w =
     (case answer (remote w) of
        (r, s') \<Rightarrow> (r, \<lparr>calls = calls w @ [(region, c)], remote = s'\<rparr>))"

text \<open>Building the client: no call is recorded and the provider is not touched.\<close>

definition boto3_client :: "'s boto3 \<Rightarrow> string \<Rightarrow> ('s, 's ec2) action" where
  "boto3_client boto3 region w = (boto3 region, w)"

text \<open>A \<^verbatim>\<open>for\<close> loop over a list whose body may raise.\<close>

fun for_each :: "('a \<Rightarrow> ('s, unit) action) \<Rightarrow> 'a list \<Rightarrow> ('s, unit) action" where
  "for_each body [] w = (Inr (), w)"
| "for_each body (x # xs) w =
     (case body x w of (Inl e, w') \<Rightarrow> (Inl e, w') | (Inr u, w') \<Rightarrow> for_each body xs w')"

section \<open>The functions of \<^verbatim>\<open>aws_vpc.py\<close>\<close>

definition create_vpc ::
  "'s boto3 \<Rightarrow> string \<Rightarrow> string \<Rightarrow> string option \<Rightarrow> bool \<Rightarrow> ('s, vpc) action" where
  "create_vpc boto3 region cidr_block vpc_name wait =
     and_then (boto3_client boto3 region) (\<lambda>client.
      and_then (request region (CreateVpc cidr_block) (ec2_create_vpc client cidr_block)) (\<lambda>vpc.
      let vpc_id = VpcId vpc in
      and_then
        (if wait
         then request region (WaitVpcAvailable [vpc_id]) (ec2_wait_vpc_available client [vpc_id])
         else return_value ()) (\<lambda>_.
      and_then
        (case vpc_name of
           Some name \<Rightarrow>
             request region (CreateTags [vpc_id] [(''Name'', name)])
               (ec2_create_tags client [vpc_id] [(''Name'', name)])
         | None \<Rightarrow> return_value ()) (\<lambda>_.
      and_then
        (request region (ModifyVpcAttribute vpc_id (EnableDnsHostnames True))
           (ec2_modify_vpc_attribute client vpc_id (EnableDnsHostnames True))) (\<lambda>_.
      return_value vpc)))))"

definition get_vpc_id :: "'s boto3 \<Rightarrow> string \<Rightarrow> string \<Rightarrow> ('s, string option) action" where
  "get_vpc_id boto3 region cidr_block =
     and_then (boto3_client boto3 region) (\<lambda>client.
      and_then
        (request region (DescribeVpcs [(''cidr'', [cidr_block])])
           (ec2_describe_vpcs client [(''cidr'', [cidr_block])])) (\<lambda>vpcs.
      case vpcs of
        v # _ \<Rightarrow> return_value (Some (VpcId v))
      | [] \<Rightarrow> return_value None))"

definition create_internet_gateway ::
  "'s boto3 \<Rightarrow> string \<Rightarrow> string \<Rightarrow> string option \<Rightarrow> ('s, internet_gateway) action" where
  "create_internet_gateway boto3 region vpc_id igw_name =
     and_then (boto3_client boto3 region) (\<lambda>client.
      and_then (request region CreateInternetGateway (ec2_create_internet_gateway client)) (\<lambda>igw.
      let igw_id = InternetGatewayId igw in
      and_then
        (case igw_name of
           Some name \<Rightarrow>
             request region (CreateTags [igw_id] [(''Name'', name)])
               (ec2_create_tags client [igw_id] [(''Name'', name)])
         | None \<Rightarrow> return_value ()) (\<lambda>_.
      and_then
        (request region (AttachInternetGateway igw_id vpc_id)
           (ec2_attach_internet_gateway client igw_id vpc_id)) (\<lambda>_.
      return_value igw))))"

definition get_vpc_internet_gateway_id ::
  "'s boto3 \<Rightarrow> string \<Rightarrow> string \<Rightarrow> ('s, string option) action" where
  "get_vpc_internet_gateway_id boto3 region vpc_id =
     and_then (boto3_client boto3 region) (\<lambda>client.
      and_then
        (request region (DescribeInternetGateways [(''attachment.vpc-id'', [vpc_id])])
           (ec2_describe_internet_gateways client [(''attachment.vpc-id'', [vpc_id])])) (\<lambda>igws.
      case igws of
        g # _ \<Rightarrow> return_value (Some (InternetGatewayId g))
      | [] \<Rightarrow> return_value None))"

text \<open>The exception lines 151 to 157 build when \<^verbatim>\<open>response['Return']\<close> is false.\<close>

definition create_route_error :: error where
  "create_route_error =
     ClientError
       \<lparr>Code = ''CreateRouteError'', Message = ''Could not create the route'',
        ResponseMetadata = None\<rparr>
       ''CreateRoute''"

definition create_public_route_table ::
  "'s boto3 \<Rightarrow> string \<Rightarrow> string \<Rightarrow> string \<Rightarrow> string option \<Rightarrow> ('s, route_table) action" where
  "create_public_route_table boto3 region vpc_id igw_id rtb_name =
     and_then (boto3_client boto3 region) (\<lambda>client.
      and_then (request region (CreateRouteTable vpc_id) (ec2_create_route_table client vpc_id)) (\<lambda>rtb.
      let rtb_id = RouteTableId rtb in
      and_then
        (request region (CreateRoute rtb_id ''0.0.0.0/0'' igw_id)
           (ec2_create_route client rtb_id ''0.0.0.0/0'' igw_id)) (\<lambda>response.
      and_then (if \<not> response then raise_error create_route_error else return_value ()) (\<lambda>_.
      and_then
        (case rtb_name of
           Some name \<Rightarrow>
             request region (CreateTags [rtb_id] [(''Name'', name)])
               (ec2_create_tags client [rtb_id] [(''Name'', name)])
         | None \<Rightarrow> return_value ()) (\<lambda>_.
      return_value rtb)))))"

definition get_public_route_table_info ::
  "'s boto3 \<Rightarrow> string \<Rightarrow> string \<Rightarrow> ('s, route_table option) action" where
  "get_public_route_table_info boto3 region igw_id =
     and_then (boto3_client boto3 region) (\<lambda>client.
      and_then
        (request region (DescribeRouteTables [(''route.gateway-id'', [igw_id])])
           (ec2_describe_route_tables client [(''route.gateway-id'', [igw_id])])) (\<lambda>rtbs.
      case rtbs of
        t # _ \<Rightarrow> return_value (Some t)
      | [] \<Rightarrow> return_value None))"

definition create_subnet ::
  "'s boto3 \<Rightarrow> string \<Rightarrow> string \<Rightarrow> string \<Rightarrow> string option \<Rightarrow> ('s, subnet) action" where
  "create_subnet boto3 region vpc_id subnet_cidr_block subnet_name =
     and_then (boto3_client boto3 region) (\<lambda>client.
      and_then
        (request region (CreateSubnet vpc_id subnet_cidr_block)
           (ec2_create_subnet client vpc_id subnet_cidr_block)) (\<lambda>subnet.
      and_then
        (case subnet_name of
           Some name \<Rightarrow>
             request region (CreateTags [SubnetId subnet] [(''Name'', name)])
               (ec2_create_tags client [SubnetId subnet] [(''Name'', name)])
         | None \<Rightarrow> return_value ()) (\<lambda>_.
      return_value subnet)))"

definition associate_public_route ::
  "'s boto3 \<Rightarrow> string \<Rightarrow> string \<Rightarrow> string \<Rightarrow> ('s, string) action" where
  "associate_public_route boto3 region rtb_id subnet_id =
     and_then (boto3_client boto3 region) (\<lambda>client.
      and_then
        (request region (AssociateRouteTable rtb_id subnet_id)
           (ec2_associate_route_table client rtb_id subnet_id)) (\<lambda>association.
      and_then
        (request region (ModifySubnetAttribute subnet_id (MapPublicIpOnLaunch True))
           (ec2_modify_subnet_attribute client subnet_id (MapPublicIpOnLaunch True))) (\<lambda>_.
      return_value association)))"

definition get_subnets :: "'s boto3 \<Rightarrow> string \<Rightarrow> string \<Rightarrow> ('s, subnet list) action" where
  "get_subnets boto3 region vpc_id =
     and_then (boto3_client boto3 region) (\<lambda>client.
      and_then
        (request region (DescribeSubnets [(''vpc-id'', [vpc_id])])
           (ec2_describe_subnets client [(''vpc-id'', [vpc_id])])) (\<lambda>subnets.
      return_value subnets))"

definition delete_vpc_resources :: "'s boto3 \<Rightarrow> string \<Rightarrow> string \<Rightarrow> ('s, unit) action" where
  "delete_vpc_resources boto3 region cidr_block =
     and_then (get_vpc_id boto3 region cidr_block) (\<lambda>found.
     case found of
       None \<Rightarrow> return_value ()
     | Some vpc_id \<Rightarrow>
         and_then (boto3_client boto3 region) (\<lambda>client.
          and_then (get_vpc_internet_gateway_id boto3 region vpc_id) (\<lambda>igw.
          and_then
            (case igw of
               None \<Rightarrow> return_value ()
             | Some igw_id \<Rightarrow>
                 and_then (get_public_route_table_info boto3 region igw_id) (\<lambda>rtb_info.
                 and_then
                   (case rtb_info of
                      None \<Rightarrow> return_value ()
                    | Some rtb \<Rightarrow>
                        and_then
                          (for_each
                             (\<lambda>association.
                                request region
                                  (DisassociateRouteTable (RouteTableAssociationId association))
                                  (ec2_disassociate_route_table client
                                     (RouteTableAssociationId association)))
                             (Associations rtb)) (\<lambda>_.
                        let rtb_id = RouteTableId rtb in
                        and_then
                          (request region (DeleteTags [rtb_id]) (ec2_delete_tags client [rtb_id])) (\<lambda>_.
                        request region (DeleteRouteTable rtb_id)
                          (ec2_delete_route_table client rtb_id)))) (\<lambda>_.
                 and_then
                   (request region (DeleteTags [igw_id]) (ec2_delete_tags client [igw_id])) (\<lambda>_.
                 and_then
                   (request region (DetachInternetGateway igw_id vpc_id)
                      (ec2_detach_internet_gateway client igw_id vpc_id)) (\<lambda>_.
                 request region (DeleteInternetGateway igw_id)
                   (ec2_delete_internet_gateway client igw_id)))))) (\<lambda>_.
          and_then (get_subnets boto3 region vpc_id) (\<lambda>subnets.
          and_then
            (for_each
               (\<lambda>subnet.
                  let subnet_id = SubnetId subnet in
                  and_then
                    (request region (DeleteTags [subnet_id]) (ec2_delete_tags client [subnet_id])) (\<lambda>_.
                  request region (DeleteSubnet subnet_id) (ec2_delete_subnet client subnet_id)))
               subnets) (\<lambda>_.
          and_then
            (request region (DeleteTags [vpc_id]) (ec2_delete_tags client [vpc_id])) (\<lambda>_.
          request region (DeleteVpc vpc_id) (ec2_delete_vpc client vpc_id))))))))"

section \<open>A test double for the provider\<close>

text \<open>
  A small in-memory EC2 for running the functions on concrete inputs. It keeps the VPCs,
  gateways, route tables and subnets it was asked to create, answers the describe calls
  from them with the filters the script uses, and refuses a deletion that would break
  the provider's dependency rules.
\<close>

record fake =
  fake_vpcs :: "(string \<times> string) list"
    \<comment> \<open>VPC id and CIDR block\<close>
  fake_igws :: "(string \<times> string list) list"
    \<comment> \<open>gateway id and the VPCs it is attached to\<close>
  fake_rtbs :: "(route_table \<times> string list) list"
    \<comment> \<open>route table and the gateway targets of its routes\<close>
  fake_subnets :: "(string \<times> string) list"
    \<comment> \<open>subnet id and VPC id\<close>
  fake_route_flag :: bool
    \<comment> \<open>the \<^verbatim>\<open>Return\<close> field of the next \<^verbatim>\<open>create_route\<close> response\<close>

definition matches :: "(string \<Rightarrow> string list) \<Rightarrow> filter_spec list \<Rightarrow> bool" where
  "matches attrs filters = list_all (\<lambda>(name, vals). list_ex (\<lambda>a. a \<in> set vals) (attrs name)) filters"

definition dependency_violation :: "string \<Rightarrow> error" where
  "dependency_violation operation =
     ClientError
       \<lparr>Code = ''DependencyViolation'', Message = ''The resource has dependencies'',
        ResponseMetadata = Some [(''RequestId'', ''req-1''), (''HTTPStatusCode'', ''400'')]\<rparr>
       operation"

definition fake_ec2 :: "fake ec2" where
  "fake_ec2 = \<lparr>
     ec2_create_vpc = (\<lambda>cidr s.
       (Inr \<lparr>VpcId = ''vpc-'' @ cidr\<rparr>, s\<lparr>fake_vpcs := fake_vpcs s @ [(''vpc-'' @ cidr, cidr)]\<rparr>)),
     ec2_wait_vpc_available = (\<lambda>ids s. (Inr (), s)),
     ec2_create_tags = (\<lambda>resources tags s. (Inr (), s)),
     ec2_modify_vpc_attribute = (\<lambda>vpc_id attr s. (Inr (), s)),
     ec2_describe_vpcs = (\<lambda>filters s.
       (Inr (map (\<lambda>(i, c). \<lparr>VpcId = i\<rparr>)
               (filter (\<lambda>(i, c). matches (\<lambda>n. if n = ''cidr'' then [c] else []) filters)
                  (fake_vpcs s))), s)),
     ec2_create_internet_gateway = (\<lambda>s.
       (Inr \<lparr>InternetGatewayId = ''igw-1''\<rparr>, s\<lparr>fake_igws := fake_igws s @ [(''igw-1'', [])]\<rparr>)),
     ec2_attach_internet_gateway = (\<lambda>igw_id vpc_id s.
       (Inr (), s\<lparr>fake_igws :=
          map (\<lambda>(g, vs). if g = igw_id then (g, vs @ [vpc_id]) else (g, vs)) (fake_igws s)\<rparr>)),
     ec2_describe_internet_gateways = (\<lambda>filters s.
       (Inr (map (\<lambda>(g, vs). \<lparr>InternetGatewayId = g\<rparr>)
               (filter (\<lambda>(g, vs). matches (\<lambda>n. if n = ''attachment.vpc-id'' then vs else []) filters)
                  (fake_igws s))), s)),
     ec2_create_route_table = (\<lambda>vpc_id s.
       (Inr \<lparr>RouteTableId = ''rtb-1'', Associations = []\<rparr>,
        s\<lparr>fake_rtbs := fake_rtbs s @ [(\<lparr>RouteTableId = ''rtb-1'', Associations = []\<rparr>, [])]\<rparr>)),
     ec2_create_route = (\<lambda>rtb_id dest gateway s.
       (Inr (fake_route_flag s),
        if fake_route_flag s
        then s\<lparr>fake_rtbs :=
               map (\<lambda>(t, gs). if RouteTableId t = rtb_id then (t, gs @ [gateway]) else (t, gs))
                 (fake_rtbs s)\<rparr>
        else s)),
     ec2_describe_route_tables = (\<lambda>filters s.
       (Inr (map fst
               (filter (\<lambda>(t, gs). matches (\<lambda>n. if n = ''route.gateway-id'' then gs else []) filters)
                  (fake_rtbs s))), s)),
     ec2_create_subnet = (\<lambda>vpc_id cidr s.
       (Inr \<lparr>SubnetId = ''subnet-'' @ cidr\<rparr>,
        s\<lparr>fake_subnets := fake_subnets s @ [(''subnet-'' @ cidr, vpc_id)]\<rparr>)),
     ec2_associate_route_table = (\<lambda>rtb_id subnet_id s.
       (Inr (''rtbassoc-'' @ subnet_id),
        s\<lparr>fake_rtbs :=
            map (\<lambda>(t, gs).
                   if RouteTableId t = rtb_id
                   then (t\<lparr>Associations :=
                            Associations t @ [\<lparr>RouteTableAssociationId = ''rtbassoc-'' @ subnet_id\<rparr>]\<rparr>, gs)
                   else (t, gs))
              (fake_rtbs s)\<rparr>)),
     ec2_modify_subnet_attribute = (\<lambda>subnet_id attr s. (Inr (), s)),
     ec2_describe_subnets = (\<lambda>filters s.
       (Inr (map (\<lambda>(i, v). \<lparr>SubnetId = i\<rparr>)
               (filter (\<lambda>(i, v). matches (\<lambda>n. if n = ''vpc-id'' then [v] else []) filters)
                  (fake_subnets s))), s)),
     ec2_disassociate_route_table = (\<lambda>association_id s.
       (Inr (),
        s\<lparr>fake_rtbs :=
            map (\<lambda>(t, gs).
                   (t\<lparr>Associations :=
                        filter (\<lambda>a. RouteTableAssociationId a \<noteq> association_id) (Associations t)\<rparr>, gs))
              (fake_rtbs s)\<rparr>)),
     ec2_delete_tags = (\<lambda>resources s. (Inr (), s)),
     ec2_delete_route_table = (\<lambda>rtb_id s.
       if list_ex (\<lambda>(t, gs). RouteTableId t = rtb_id \<and> Associations t \<noteq> []) (fake_rtbs s)
       then (Inl (dependency_violation ''DeleteRouteTable''), s)
       else (Inr (), s\<lparr>fake_rtbs := filter (\<lambda>(t, gs). RouteTableId t \<noteq> rtb_id) (fake_rtbs s)\<rparr>)),
     ec2_detach_internet_gateway = (\<lambda>igw_id vpc_id s.
       (Inr (), s\<lparr>fake_igws :=
          map (\<lambda>(g, vs). if g = igw_id then (g, filter (\<lambda>v. v \<noteq> vpc_id) vs) else (g, vs))
            (fake_igws s)\<rparr>)),
     ec2_delete_internet_gateway = (\<lambda>igw_id s.
       if list_ex (\<lambda>(g, vs). g = igw_id \<and> vs \<noteq> []) (fake_igws s)
       then (Inl (dependency_violation ''DeleteInternetGateway''), s)
       else (Inr (), s\<lparr>fake_igws := filter (\<lambda>(g, vs). g \<noteq> igw_id) (fake_igws s)\<rparr>)),
     ec2_delete_subnet = (\<lambda>subnet_id s.
       (Inr (), s\<lparr>fake_subnets := filter (\<lambda>(i, v). i \<noteq> subnet_id) (fake_subnets s)\<rparr>)),
     ec2_delete_vpc = (\<lambda>vpc_id s.
       if list_ex (\<lambda>(i, v). v = vpc_id) (fake_subnets s)
          \<or> list_ex (\<lambda>(g, vs). vpc_id \<in> set vs) (fake_igws s)
       then (Inl (dependency_violation ''DeleteVpc''), s)
       else (Inr (), s\<lparr>fake_vpcs := filter (\<lambda>(i, c). i \<noteq> vpc_id) (fake_vpcs s)\<rparr>))
   \<rparr>"

text \<open>
  The check botocore makes on a region name before it builds a client: a host label
  of letters, digits and hyphens, not digits only, with no hyphen first or last.
\<close>

definition region_characters :: string where
  "region_characters = ''abcdefghijklmnopqrstuvwxyzABCDEFGHIJKLMNOPQRSTUVWXYZ0123456789-''"

definition valid_region_name :: "string \<Rightarrow> bool" where
  "valid_region_name name \<longleftrightarrow>
     length name \<le> 63
     \<and> list_all (\<lambda>c. c \<in> set region_characters) name
     \<and> \<not> (name \<noteq> [] \<and> list_all (\<lambda>c. c \<in> set ''0123456789'') name)
     \<and> (name = [] \<or> hd name \<noteq> CHR ''-'' \<and> last name \<noteq> CHR ''-'')"

definition boto3_for :: "fake ec2 \<Rightarrow> fake boto3" where
  "boto3_for client region =
     (if valid_region_name region then Inr client else Inl (BotoCoreError ''InvalidRegionError''))"

definition fake_boto3 :: "fake boto3" where
  "fake_boto3 = boto3_for fake_ec2"

text \<open>A provider with nothing in it, and one holding the topology the script builds.\<close>

definition empty_world :: "fake world" where
  "empty_world = \<lparr>calls = [],
     remote = \<lparr>fake_vpcs = [], fake_igws = [], fake_rtbs = [], fake_subnets = [],
               fake_route_flag = True\<rparr>\<rparr>"

definition built_world :: "fake world" where
  "built_world = \<lparr>calls = [],
     remote = \<lparr>fake_vpcs = [(''vpc-1'', ''10.1.0.0/16'')],
               fake_igws = [(''igw-1'', [''vpc-1''])],
               fake_rtbs = [(\<lparr>RouteTableId = ''rtb-1'',
                               Associations = [\<lparr>RouteTableAssociationId = ''assoc-1''\<rparr>,
                                               \<lparr>RouteTableAssociationId = ''assoc-2''\<rparr>]\<rparr>,
                             [''igw-1''])],
               fake_subnets = [(''subnet-1'', ''vpc-1''), (''subnet-2'', ''vpc-1'')],
               fake_route_flag = True\<rparr>\<rparr>"

text \<open>
  A provider that refuses every describe call, and one whose \<^verbatim>\<open>create_route\<close> fails
  because the route table is full.
\<close>

definition access_denied :: "string \<Rightarrow> error" where
  "access_denied operation =
     ClientError
       \<lparr>Code = ''UnauthorizedOperation'', Message = ''You are not authorized'',
        ResponseMetadata = Some [(''RequestId'', ''req-2''), (''HTTPStatusCode'', ''403'')]\<rparr>
       operation"

definition refusing_ec2 :: "fake ec2" where
  "refusing_ec2 = fake_ec2
     \<lparr>ec2_describe_vpcs := (\<lambda>filters s. (Inl (access_denied ''DescribeVpcs''), s)),
      ec2_describe_internet_gateways := (\<lambda>filters s. (Inl (access_denied ''DescribeInternetGateways''), s)),
      ec2_describe_route_tables := (\<lambda>filters s. (Inl (access_denied ''DescribeRouteTables''), s))\<rparr>"

definition refusing_boto3 :: "fake boto3" where
  "refusing_boto3 = boto3_for refusing_ec2"

definition route_limit_exceeded :: error where
  "route_limit_exceeded =
     ClientError
       \<lparr>Code = ''RouteLimitExceeded'', Message = ''Too many routes'',
        ResponseMetadata = Some [(''RequestId'', ''req-3''), (''HTTPStatusCode'', ''400'')]\<rparr>
       ''CreateRoute''"

definition quota_ec2 :: "fake ec2" where
  "quota_ec2 = fake_ec2
     \<lparr>ec2_create_route := (\<lambda>rtb_id dest gateway s. (Inl route_limit_exceeded, s))\<rparr>"

definition quota_boto3 :: "fake boto3" where
  "quota_boto3 = boto3_for quota_ec2"

definition false_flag_world :: "fake world" where
  "false_flag_world = \<lparr>calls = [],
     remote = \<lparr>fake_vpcs = [(''vpc-1'', ''10.1.0.0/16'')], fake_igws = [(''igw-1'', [''vpc-1''])],
               fake_rtbs = [], fake_subnets = [], fake_route_flag = False\<rparr>\<rparr>"

text \<open>A provider where every lookup of the script matches two records.\<close>

definition crowded_world :: "fake world" where
  "crowded_world = \<lparr>calls = [],
     remote = \<lparr>fake_vpcs = [(''vpc-1'', ''10.1.0.0/16''), (''vpc-2'', ''10.1.0.0/16'')],
               fake_igws = [(''igw-1'', [''vpc-1'']), (''igw-2'', [''vpc-1''])],
               fake_rtbs = [(\<lparr>RouteTableId = ''rtb-1'', Associations = []\<rparr>, [''igw-1'']),
                            (\<lparr>RouteTableId = ''rtb-2'', Associations = []\<rparr>, [''igw-1''])],
               fake_subnets = [], fake_route_flag = True\<rparr>\<rparr>"

text \<open>The built provider after one teardown of its VPC.\<close>

definition torn_down_world :: "fake world" where
  "torn_down_world = snd (delete_vpc_resources fake_boto3 ''us-west-1'' ''10.1.0.0/16'' built_world)"

text \<open>A provider holding a VPC alone, and one holding a VPC, its gateway and two subnets
  but no route table with a route to the gateway.\<close>

definition bare_world :: "fake world" where
  "bare_world = \<lparr>calls = [],
     remote = \<lparr>fake_vpcs = [(''vpc-1'', ''10.1.0.0/16'')], fake_igws = [], fake_rtbs = [],
               fake_subnets = [], fake_route_flag = True\<rparr>\<rparr>"

definition unrouted_world :: "fake world" where
  "unrouted_world = \<lparr>calls = [],
     remote = \<lparr>fake_vpcs = [(''vpc-1'', ''10.1.0.0/16'')],
               fake_igws = [(''igw-1'', [''vpc-1''])],
               fake_rtbs = [],
               fake_subnets = [(''subnet-1'', ''vpc-1''), (''subnet-2'', ''vpc-1'')],
               fake_route_flag = True\<rparr>\<rparr>"

text \<open>A provider holding two VPCs with the same CIDR block and nothing else.\<close>

definition twin_world :: "fake world" where
  "twin_world = \<lparr>calls = [],
     remote = \<lparr>fake_vpcs = [(''vpc-1'', ''10.1.0.0/16''), (''vpc-2'', ''10.1.0.0/16'')],
               fake_igws = [], fake_rtbs = [], fake_subnets = [], fake_route_flag = True\<rparr>\<rparr>"

section \<open>Observing a run\<close>



section \<open>The blocks of the teardown and the calls they make\<close>

text \<open>
  The four blocks of \<open>delete_vpc_resources\<close>, as the function has them: lines 289 to
  293 (the public route table), 296 to 301 (the gateway), 303 to 313 (the subnets and
  the VPC), with the two loops' bodies.
\<close>

definition delete_route_table_steps :: "'s ec2 \<Rightarrow> string \<Rightarrow> route_table \<Rightarrow> ('s, unit) action" where
  "delete_route_table_steps client region rtb =
     (and_then
        (for_each
           (\<lambda>association.
              request region (DisassociateRouteTable (RouteTableAssociationId association))
                (ec2_disassociate_route_table client (RouteTableAssociationId association)))
           (Associations rtb)) (\<lambda>_.
      let rtb_id = RouteTableId rtb in
      and_then (request region (DeleteTags [rtb_id]) (ec2_delete_tags client [rtb_id])) (\<lambda>_.
      request region (DeleteRouteTable rtb_id) (ec2_delete_route_table client rtb_id))))"

definition delete_gateway_steps :: "'s ec2 \<Rightarrow> string \<Rightarrow> string \<Rightarrow> string \<Rightarrow> ('s, unit) action" where
  "delete_gateway_steps client region igw_id vpc_id =
     (and_then (request region (DeleteTags [igw_id]) (ec2_delete_tags client [igw_id])) (\<lambda>_.
      and_then
        (request region (DetachInternetGateway igw_id vpc_id)
           (ec2_detach_internet_gateway client igw_id vpc_id)) (\<lambda>_.
      request region (DeleteInternetGateway igw_id) (ec2_delete_internet_gateway client igw_id))))"

definition delete_subnets_steps :: "'s ec2 \<Rightarrow> string \<Rightarrow> subnet list \<Rightarrow> ('s, unit) action" where
  "delete_subnets_steps client region subnets =
     (for_each
        (\<lambda>subnet.
           let subnet_id = SubnetId subnet in
           and_then (request region (DeleteTags [subnet_id]) (ec2_delete_tags client [subnet_id])) (\<lambda>_.
           request region (DeleteSubnet subnet_id) (ec2_delete_subnet client subnet_id)))
        subnets)"

definition delete_subnets_and_vpc ::
  "'s boto3 \<Rightarrow> 's ec2 \<Rightarrow> string \<Rightarrow> string \<Rightarrow> ('s, unit) action" where
  "delete_subnets_and_vpc boto3 client region vpc_id =
     (and_then (get_subnets boto3 region vpc_id) (\<lambda>subnets.
      and_then (delete_subnets_steps client region subnets) (\<lambda>_.
      and_then (request region (DeleteTags [vpc_id]) (ec2_delete_tags client [vpc_id])) (\<lambda>_.
      request region (DeleteVpc vpc_id) (ec2_delete_vpc client vpc_id)))))"

text \<open>The calls each block makes when no call raises.\<close>

definition route_table_calls :: "string \<Rightarrow> route_table \<Rightarrow> (string \<times> call) list" where
  "route_table_calls region rtb =
     map (\<lambda>a. (region, DisassociateRouteTable (RouteTableAssociationId a))) (Associations rtb)
     @ [(region, DeleteTags [RouteTableId rtb]), (region, DeleteRouteTable (RouteTableId rtb))]"

definition gateway_calls :: "string \<Rightarrow> string \<Rightarrow> string \<Rightarrow> (string \<times> call) list" where
  "gateway_calls region igw_id vpc_id =
     [(region, DeleteTags [igw_id]), (region, DetachInternetGateway igw_id vpc_id),
      (region, DeleteInternetGateway igw_id)]"

definition subnet_calls :: "string \<Rightarrow> subnet list \<Rightarrow> (string \<times> call) list" where
  "subnet_calls region subnets =
     concat (map (\<lambda>s. [(region, DeleteTags [SubnetId s]), (region, DeleteSubnet (SubnetId s))]) subnets)"

definition subnets_and_vpc_calls :: "string \<Rightarrow> string \<Rightarrow> subnet list \<Rightarrow> (string \<times> call) list" where
  "subnets_and_vpc_calls region vpc_id subnets =
     (region, DescribeSubnets [(''vpc-id'', [vpc_id])]) # subnet_calls region subnets
     @ [(region, DeleteTags [vpc_id]), (region, DeleteVpc vpc_id)]"

text \<open>
  The calls of a whole teardown in which no call raises, for the VPC, the gateway, the
  route table and the subnets its lookups find.
\<close>

definition teardown_calls ::
  "string \<Rightarrow> string \<Rightarrow> string \<Rightarrow> string option \<Rightarrow> route_table option \<Rightarrow> subnet list
     \<Rightarrow> (string \<times> call) list" where
  "teardown_calls region cidr_block vpc_id igw rtb subnets =
     (region, DescribeVpcs [(''cidr'', [cidr_block])])
     # (region, DescribeInternetGateways [(''attachment.vpc-id'', [vpc_id])])
     # (case igw of
          None \<Rightarrow> []
        | Some igw_id \<Rightarrow>
            (region, DescribeRouteTables [(''route.gateway-id'', [igw_id])])
            # (case rtb of None \<Rightarrow> [] | Some t \<Rightarrow> route_table_calls region t)
            @ gateway_calls region igw_id vpc_id)
     @ subnets_and_vpc_calls region vpc_id subnets"

text \<open>
  An action follows a plan from a world when the calls it makes there are the first
  calls of the plan, and the whole plan when it does not raise.
\<close>

definition follows :: "('s, 'a) action \<Rightarrow> 's world \<Rightarrow> (string \<times> call) list \<Rightarrow> bool" where
  "follows m w plan \<longleftrightarrow>
     (\<exists>tr. calls (snd (m w)) = calls w @ tr \<and> prefix tr plan \<and> (\<not> isl (fst (m w)) \<longrightarrow> tr = plan))"

text \<open>
  What the provider has to answer for the subnet loop of the teardown to go through:
  its state after it has accepted, for each subnet in turn, the removal of its tags
  and then its deletion; \<open>None\<close> when it rejects one of these calls.
\<close>

fun subnets_removed :: "'s ec2 \<Rightarrow> subnet list \<Rightarrow> 's \<Rightarrow> 's option" where
  "subnets_removed client [] s = Some s"
| "subnets_removed client (x # xs) s =
     (case ec2_delete_tags client [SubnetId x] s of
        (Inl e, s') \<Rightarrow> None
      | (Inr u, s') \<Rightarrow>
          (case ec2_delete_subnet client (SubnetId x) s' of
             (Inl e, s'') \<Rightarrow> None
           | (Inr u', s'') \<Rightarrow> subnets_removed client xs s''))"

lemmas script_defs =
  create_vpc_def get_vpc_id_def create_internet_gateway_def get_vpc_internet_gateway_id_def
  create_public_route_table_def get_public_route_table_info_def create_subnet_def
  associate_public_route_def get_subnets_def and_then_def request_def return_value_def
  raise_error_def create_route_error_def boto3_client_def Let_def

lemmas double_defs =
  fake_ec2_def refusing_ec2_def quota_ec2_def matches_def dependency_violation_def access_denied_def
  route_limit_exceeded_def
  empty_world_def built_world_def false_flag_world_def crowded_world_def bare_world_def
  unrouted_world_def twin_world_def

section \<open>The regions of the test double\<close>

lemma valid_us_west_1: "valid_region_name ''us-west-1''"
  by (simp add: valid_region_name_def region_characters_def)

lemma invalid_us_west_1: "\<not> valid_region_name ''us west 1''"
  by (simp add: valid_region_name_def region_characters_def)

lemma fake_region: "fake_boto3 ''us-west-1'' = Inr fake_ec2"
  by (simp add: fake_boto3_def boto3_for_def valid_us_west_1)

lemma refusing_region: "refusing_boto3 ''us-west-1'' = Inr refusing_ec2"
  by (simp add: refusing_boto3_def boto3_for_def valid_us_west_1)

lemma quota_region: "quota_boto3 ''us-west-1'' = Inr quota_ec2"
  by (simp add: quota_boto3_def boto3_for_def valid_us_west_1)

lemma refused_region: "fake_boto3 ''us west 1'' = Inl (BotoCoreError ''InvalidRegionError'')"
  by (simp add: fake_boto3_def boto3_for_def invalid_us_west_1)

lemmas regions = fake_region refusing_region quota_region refused_region

section \<open>The lookup helpers\<close>

text \<open>
  Claim C8, as amended. A lookup helper (\<open>get_vpc_id\<close>,
  \<open>get_vpc_internet_gateway_id\<close>, \<open>get_public_route_table_info\<close>) whose describe
  call answers with an empty list returns \<open>None\<close> and raises nothing. A helper raises
  in two cases only: boto3 refuses to build the client for the region, and then no
  call is made and the exception is boto3's; or its describe call raises, and then
  the exception is that call's.
\<close>

theorem lookup_no_match_returns_None:
  "(sdk region = Inr client
      \<and> ec2_describe_vpcs client [(''cidr'', [cidr_block])] (remote w) = (Inr [], s)
      \<longrightarrow> get_vpc_id sdk region cidr_block w =
            (Inr None,
             \<lparr>calls = calls w @ [(region, DescribeVpcs [(''cidr'', [cidr_block])])], remote = s\<rparr>))
   \<and> (get_vpc_id sdk region cidr_block w = (Inl e, w')
      \<longrightarrow> sdk region = Inl e \<and> w' = w
          \<or> (\<exists>client. sdk region = Inr client
                \<and> ec2_describe_vpcs client [(''cidr'', [cidr_block])] (remote w) = (Inl e, remote w')
                \<and> calls w' = calls w @ [(region, DescribeVpcs [(''cidr'', [cidr_block])])]))
   \<and> (sdk region = Inr client
      \<and> ec2_describe_internet_gateways client [(''attachment.vpc-id'', [vpc_id])] (remote w)
          = (Inr [], s)
      \<longrightarrow> get_vpc_internet_gateway_id sdk region vpc_id w =
            (Inr None,
             \<lparr>calls = calls w @ [(region, DescribeInternetGateways [(''attachment.vpc-id'', [vpc_id])])],
              remote = s\<rparr>))
   \<and> (get_vpc_internet_gateway_id sdk region vpc_id w = (Inl e, w')
      \<longrightarrow> sdk region = Inl e \<and> w' = w
          \<or> (\<exists>client. sdk region = Inr client
                \<and> ec2_describe_internet_gateways client [(''attachment.vpc-id'', [vpc_id])] (remote w)
                    = (Inl e, remote w')
                \<and> calls w' = calls w
                    @ [(region, DescribeInternetGateways [(''attachment.vpc-id'', [vpc_id])])]))
   \<and> (sdk region = Inr client
      \<and> ec2_describe_route_tables client [(''route.gateway-id'', [igw_id])] (remote w) = (Inr [], s)
      \<longrightarrow> get_public_route_table_info sdk region igw_id w =
            (Inr None,
             \<lparr>calls = calls w @ [(region, DescribeRouteTables [(''route.gateway-id'', [igw_id])])],
              remote = s\<rparr>))
   \<and> (get_public_route_table_info sdk region igw_id w = (Inl e, w')
      \<longrightarrow> sdk region = Inl e \<and> w' = w
          \<or> (\<exists>client. sdk region = Inr client
                \<and> ec2_describe_route_tables client [(''route.gateway-id'', [igw_id])] (remote w)
                    = (Inl e, remote w')
                \<and> calls w' = calls w
                    @ [(region, DescribeRouteTables [(''route.gateway-id'', [igw_id])])]))"
  by (auto simp: get_vpc_id_def get_vpc_internet_gateway_id_def get_public_route_table_info_def
      and_then_def request_def return_value_def boto3_client_def
      split: prod.splits sum.splits list.splits)

text \<open>
  The claim as written fails where boto3 refuses the region name: the helper raises
  \<^verbatim>\<open>InvalidRegionError\<close> although no provider call has failed, none having been made.
\<close>

theorem lookup_raises_without_call_counterexample:
  "get_vpc_id fake_boto3 ''us west 1'' ''10.1.0.0/16'' built_world
     = (Inl (BotoCoreError ''InvalidRegionError''), built_world)
   \<and> get_vpc_internet_gateway_id fake_boto3 ''us west 1'' ''vpc-1'' built_world
     = (Inl (BotoCoreError ''InvalidRegionError''), built_world)
   \<and> get_public_route_table_info fake_boto3 ''us west 1'' ''igw-1'' built_world
     = (Inl (BotoCoreError ''InvalidRegionError''), built_world)
   \<and> calls built_world = []"
  by (simp add: get_vpc_id_def get_vpc_internet_gateway_id_def get_public_route_table_info_def
      and_then_def boto3_client_def refused_region built_world_def)

theorem lookup_no_match_witness:
  "get_vpc_id fake_boto3 ''us-west-1'' ''10.1.0.0/16'' empty_world =
     (Inr None,
      \<lparr>calls = [(''us-west-1'', DescribeVpcs [(''cidr'', [''10.1.0.0/16''])])],
       remote = remote empty_world\<rparr>)
   \<and> get_vpc_internet_gateway_id fake_boto3 ''us-west-1'' ''vpc-1'' empty_world =
     (Inr None,
      \<lparr>calls = [(''us-west-1'', DescribeInternetGateways [(''attachment.vpc-id'', [''vpc-1''])])],
       remote = remote empty_world\<rparr>)
   \<and> get_public_route_table_info fake_boto3 ''us-west-1'' ''igw-1'' empty_world =
     (Inr None,
      \<lparr>calls = [(''us-west-1'', DescribeRouteTables [(''route.gateway-id'', [''igw-1''])])],
       remote = remote empty_world\<rparr>)
   \<and> get_vpc_id refusing_boto3 ''us-west-1'' ''10.1.0.0/16'' built_world
       = (Inl (access_denied ''DescribeVpcs''),
          \<lparr>calls = [(''us-west-1'', DescribeVpcs [(''cidr'', [''10.1.0.0/16''])])],
           remote = remote built_world\<rparr>)
   \<and> (\<exists>client. refusing_boto3 ''us-west-1'' = Inr client
         \<and> ec2_describe_vpcs client [(''cidr'', [''10.1.0.0/16''])] (remote built_world)
             = (Inl (access_denied ''DescribeVpcs''), remote built_world))
   \<and> (\<exists>client. refusing_boto3 ''us-west-1'' = Inr client
         \<and> ec2_describe_internet_gateways client [(''attachment.vpc-id'', [''vpc-1''])]
              (remote built_world)
             = (Inl (access_denied ''DescribeInternetGateways''), remote built_world))
   \<and> (\<exists>client. refusing_boto3 ''us-west-1'' = Inr client
         \<and> ec2_describe_route_tables client [(''route.gateway-id'', [''igw-1''])]
              (remote built_world)
             = (Inl (access_denied ''DescribeRouteTables''), remote built_world))"
proof -
  have v: "ec2_describe_vpcs fake_ec2 [(''cidr'', [''10.1.0.0/16''])] (remote empty_world)
      = (Inr [], remote empty_world)"
    by (simp add: double_defs)
  have g: "ec2_describe_internet_gateways fake_ec2 [(''attachment.vpc-id'', [''vpc-1''])]
      (remote empty_world) = (Inr [], remote empty_world)"
    by (simp add: double_defs)
  have t: "ec2_describe_route_tables fake_ec2 [(''route.gateway-id'', [''igw-1''])]
      (remote empty_world) = (Inr [], remote empty_world)"
    by (simp add: double_defs)
  let ?wv = "\<lparr>calls = [(''us-west-1'', DescribeVpcs [(''cidr'', [''10.1.0.0/16''])])],
          remote = remote built_world\<rparr>"
  let ?wg = "\<lparr>calls = [(''us-west-1'', DescribeInternetGateways [(''attachment.vpc-id'', [''vpc-1''])])],
          remote = remote built_world\<rparr>"
  let ?wt = "\<lparr>calls = [(''us-west-1'', DescribeRouteTables [(''route.gateway-id'', [''igw-1''])])],
          remote = remote built_world\<rparr>"
  have rv: "get_vpc_id refusing_boto3 ''us-west-1'' ''10.1.0.0/16'' built_world
      = (Inl (access_denied ''DescribeVpcs''), ?wv)"
    by (simp add: script_defs refusing_region refusing_ec2_def built_world_def)
  have rg: "get_vpc_internet_gateway_id refusing_boto3 ''us-west-1'' ''vpc-1'' built_world
      = (Inl (access_denied ''DescribeInternetGateways''), ?wg)"
    by (simp add: script_defs refusing_region refusing_ec2_def built_world_def)
  have rt: "get_public_route_table_info refusing_boto3 ''us-west-1'' ''igw-1'' built_world
      = (Inl (access_denied ''DescribeRouteTables''), ?wt)"
    by (simp add: script_defs refusing_region refusing_ec2_def built_world_def)
  have built: "refusing_boto3 ''us-west-1'' \<noteq> Inl e" for e
    by (simp add: refusing_region)
  note found = lookup_no_match_returns_None
    [where sdk = fake_boto3 and region = "''us-west-1''" and client = fake_ec2
       and cidr_block = "''10.1.0.0/16''" and vpc_id = "''vpc-1''" and igw_id = "''igw-1''"
       and w = empty_world and s = "remote empty_world"]
  note raised = lookup_no_match_returns_None
    [where sdk = refusing_boto3 and region = "''us-west-1''" and cidr_block = "''10.1.0.0/16''"
       and vpc_id = "''vpc-1''" and igw_id = "''igw-1''" and w = built_world]
  have c: "calls empty_world = []" by (simp add: empty_world_def)
  from found v g t fake_region c
  have 1: "get_vpc_id fake_boto3 ''us-west-1'' ''10.1.0.0/16'' empty_world =
     (Inr None,
      \<lparr>calls = [(''us-west-1'', DescribeVpcs [(''cidr'', [''10.1.0.0/16''])])],
       remote = remote empty_world\<rparr>)"
    and 2: "get_vpc_internet_gateway_id fake_boto3 ''us-west-1'' ''vpc-1'' empty_world =
     (Inr None,
      \<lparr>calls = [(''us-west-1'', DescribeInternetGateways [(''attachment.vpc-id'', [''vpc-1''])])],
       remote = remote empty_world\<rparr>)"
    and 3: "get_public_route_table_info fake_boto3 ''us-west-1'' ''igw-1'' empty_world =
     (Inr None,
      \<lparr>calls = [(''us-west-1'', DescribeRouteTables [(''route.gateway-id'', [''igw-1''])])],
       remote = remote empty_world\<rparr>)"
    by simp_all
  from raised [where e = "access_denied ''DescribeVpcs''" and w' = ?wv,
      THEN conjunct2, THEN conjunct1, THEN mp, OF rv] built
  have 4: "\<exists>client. refusing_boto3 ''us-west-1'' = Inr client
         \<and> ec2_describe_vpcs client [(''cidr'', [''10.1.0.0/16''])] (remote built_world)
             = (Inl (access_denied ''DescribeVpcs''), remote built_world)"
    by auto
  from raised [where e = "access_denied ''DescribeInternetGateways''" and w' = ?wg,
      THEN conjunct2, THEN conjunct2, THEN conjunct2, THEN conjunct1, THEN mp, OF rg] built
  have 5: "\<exists>client. refusing_boto3 ''us-west-1'' = Inr client
         \<and> ec2_describe_internet_gateways client [(''attachment.vpc-id'', [''vpc-1''])]
              (remote built_world)
             = (Inl (access_denied ''DescribeInternetGateways''), remote built_world)"
    by auto
  from raised [where e = "access_denied ''DescribeRouteTables''" and w' = ?wt,
      THEN conjunct2, THEN conjunct2, THEN conjunct2, THEN conjunct2, THEN conjunct2,
      THEN mp, OF rt] built
  have 6: "\<exists>client. refusing_boto3 ''us-west-1'' = Inr client
         \<and> ec2_describe_route_tables client [(''route.gateway-id'', [''igw-1''])]
              (remote built_world)
             = (Inl (access_denied ''DescribeRouteTables''), remote built_world)"
    by auto
  from 1 2 3 rv 4 5 6 show ?thesis by (intro conjI)
qed

text \<open>
  Claim C9. When the describe call answers with more than one record, each lookup
  helper returns the first record of the list, in the provider's order, and raises
  nothing: \<open>get_vpc_id\<close> its \<open>VpcId\<close>, \<open>get_vpc_internet_gateway_id\<close> its
  \<open>InternetGatewayId\<close>, \<open>get_public_route_table_info\<close> the record itself.
\<close>

theorem lookup_returns_first_match:
  assumes "sdk region = Inr client"
  shows
  "(ec2_describe_vpcs client [(''cidr'', [cidr_block])] (remote w) = (Inr (v # v' # vs), s)
      \<longrightarrow> get_vpc_id sdk region cidr_block w =
            (Inr (Some (VpcId v)),
             \<lparr>calls = calls w @ [(region, DescribeVpcs [(''cidr'', [cidr_block])])], remote = s\<rparr>))
   \<and> (ec2_describe_internet_gateways client [(''attachment.vpc-id'', [vpc_id])] (remote w)
         = (Inr (g # g' # gs), s)
      \<longrightarrow> get_vpc_internet_gateway_id sdk region vpc_id w =
            (Inr (Some (InternetGatewayId g)),
             \<lparr>calls = calls w @ [(region, DescribeInternetGateways [(''attachment.vpc-id'', [vpc_id])])],
              remote = s\<rparr>))
   \<and> (ec2_describe_route_tables client [(''route.gateway-id'', [igw_id])] (remote w)
         = (Inr (t # t' # ts), s)
      \<longrightarrow> get_public_route_table_info sdk region igw_id w =
            (Inr (Some t),
             \<lparr>calls = calls w @ [(region, DescribeRouteTables [(''route.gateway-id'', [igw_id])])],
              remote = s\<rparr>))"
  using assms
  by (simp add: get_vpc_id_def get_vpc_internet_gateway_id_def get_public_route_table_info_def
      and_then_def request_def return_value_def boto3_client_def)

theorem lookup_returns_first_match_witness:
  "get_vpc_id fake_boto3 ''us-west-1'' ''10.1.0.0/16'' crowded_world =
     (Inr (Some ''vpc-1''),
      \<lparr>calls = [(''us-west-1'', DescribeVpcs [(''cidr'', [''10.1.0.0/16''])])],
       remote = remote crowded_world\<rparr>)
   \<and> get_vpc_internet_gateway_id fake_boto3 ''us-west-1'' ''vpc-1'' crowded_world =
     (Inr (Some ''igw-1''),
      \<lparr>calls = [(''us-west-1'', DescribeInternetGateways [(''attachment.vpc-id'', [''vpc-1''])])],
       remote = remote crowded_world\<rparr>)
   \<and> get_public_route_table_info fake_boto3 ''us-west-1'' ''igw-1'' crowded_world =
     (Inr (Some \<lparr>RouteTableId = ''rtb-1'', Associations = []\<rparr>),
      \<lparr>calls = [(''us-west-1'', DescribeRouteTables [(''route.gateway-id'', [''igw-1''])])],
       remote = remote crowded_world\<rparr>)"
proof -
  have v: "ec2_describe_vpcs fake_ec2 [(''cidr'', [''10.1.0.0/16''])]
      (remote crowded_world) = (Inr [\<lparr>VpcId = ''vpc-1''\<rparr>, \<lparr>VpcId = ''vpc-2''\<rparr>], remote crowded_world)"
    by (simp add: double_defs)
  have g: "ec2_describe_internet_gateways fake_ec2 [(''attachment.vpc-id'', [''vpc-1''])]
      (remote crowded_world)
      = (Inr [\<lparr>InternetGatewayId = ''igw-1''\<rparr>, \<lparr>InternetGatewayId = ''igw-2''\<rparr>],
         remote crowded_world)"
    by (simp add: double_defs)
  have t: "ec2_describe_route_tables fake_ec2 [(''route.gateway-id'', [''igw-1''])]
      (remote crowded_world)
      = (Inr [\<lparr>RouteTableId = ''rtb-1'', Associations = []\<rparr>,
              \<lparr>RouteTableId = ''rtb-2'', Associations = []\<rparr>], remote crowded_world)"
    by (simp add: double_defs)
  have c: "calls crowded_world = []" by (simp add: crowded_world_def)
  from lookup_returns_first_match
    [where sdk = fake_boto3 and region = "''us-west-1''", OF fake_region,
     where cidr_block = "''10.1.0.0/16''" and vpc_id = "''vpc-1''" and igw_id = "''igw-1''"
       and w = crowded_world and s = "remote crowded_world"] v g t c
  show ?thesis by simp
qed

section \<open>Provisioning\<close>

text \<open>
  Claim C3. When \<open>create_public_route_table\<close> has created the route table and the
  \<^verbatim>\<open>create_route\<close> call answers with a false \<^verbatim>\<open>Return\<close> flag, the function raises
  the route creation error (lines 151 to 157) whatever the name argument is, and the
  calls it has made are the route table creation and the route creation only: no
  \<open>CreateTags\<close> call is made.
\<close>

theorem create_route_false_raises:
  assumes "sdk region = Inr client"
    and "ec2_create_route_table client vpc_id (remote w) = (Inr rtb, s1)"
    and "ec2_create_route client (RouteTableId rtb) ''0.0.0.0/0'' igw_id s1 = (Inr False, s2)"
  shows "create_public_route_table sdk region vpc_id igw_id rtb_name w =
           (Inl create_route_error,
            \<lparr>calls = calls w @ [(region, CreateRouteTable vpc_id),
                                (region, CreateRoute (RouteTableId rtb) ''0.0.0.0/0'' igw_id)],
             remote = s2\<rparr>)"
  using assms
  by (simp add: create_public_route_table_def and_then_def request_def return_value_def
      raise_error_def boto3_client_def Let_def)

theorem create_route_false_raises_witness:
  "fake_boto3 ''us-west-1'' = Inr fake_ec2
   \<and> ec2_create_route_table fake_ec2 ''vpc-1'' (remote false_flag_world)
     = (Inr \<lparr>RouteTableId = ''rtb-1'', Associations = []\<rparr>,
        (remote false_flag_world)
          \<lparr>fake_rtbs := [(\<lparr>RouteTableId = ''rtb-1'', Associations = []\<rparr>, [])]\<rparr>)
   \<and> ec2_create_route fake_ec2 ''rtb-1'' ''0.0.0.0/0'' ''igw-1''
        ((remote false_flag_world)\<lparr>fake_rtbs := [(\<lparr>RouteTableId = ''rtb-1'', Associations = []\<rparr>, [])]\<rparr>)
     = (Inr False,
        (remote false_flag_world)
          \<lparr>fake_rtbs := [(\<lparr>RouteTableId = ''rtb-1'', Associations = []\<rparr>, [])]\<rparr>)
   \<and> create_public_route_table fake_boto3 ''us-west-1'' ''vpc-1'' ''igw-1'' (Some ''rtb-boto3-public'')
        false_flag_world
     = (Inl create_route_error,
        \<lparr>calls = [(''us-west-1'', CreateRouteTable ''vpc-1''),
                  (''us-west-1'', CreateRoute ''rtb-1'' ''0.0.0.0/0'' ''igw-1'')],
         remote = (remote false_flag_world)
           \<lparr>fake_rtbs := [(\<lparr>RouteTableId = ''rtb-1'', Associations = []\<rparr>, [])]\<rparr>\<rparr>)"
proof -
  have t: "ec2_create_route_table fake_ec2 ''vpc-1'' (remote false_flag_world)
     = (Inr \<lparr>RouteTableId = ''rtb-1'', Associations = []\<rparr>,
        (remote false_flag_world)
          \<lparr>fake_rtbs := [(\<lparr>RouteTableId = ''rtb-1'', Associations = []\<rparr>, [])]\<rparr>)"
    by (simp add: double_defs)
  have r: "ec2_create_route fake_ec2
       (RouteTableId \<lparr>RouteTableId = ''rtb-1'', Associations = []\<rparr>) ''0.0.0.0/0'' ''igw-1''
        ((remote false_flag_world)\<lparr>fake_rtbs := [(\<lparr>RouteTableId = ''rtb-1'', Associations = []\<rparr>, [])]\<rparr>)
     = (Inr False,
        (remote false_flag_world)
          \<lparr>fake_rtbs := [(\<lparr>RouteTableId = ''rtb-1'', Associations = []\<rparr>, [])]\<rparr>)"
    by (simp add: double_defs)
  have c: "calls false_flag_world = []" by (simp add: false_flag_world_def)
  from create_route_false_raises
    [where sdk = fake_boto3 and region = "''us-west-1''" and rtb_name = "Some ''rtb-boto3-public''",
     OF fake_region t r] t r c fake_region
  show ?thesis by simp
qed

text \<open>
  Claim C4, as amended. The exception \<open>create_public_route_table\<close> raises on a false
  \<^verbatim>\<open>Return\<close> flag is not of a kind of its own: its class is \<^verbatim>\<open>ClientError\<close>, and it
  is built with the code \<^verbatim>\<open>CreateRouteError\<close>, the message
  \<^verbatim>\<open>Could not create the route\<close>, the operation name \<^verbatim>\<open>CreateRoute\<close> and no response
  metadata. The exception of a \<^verbatim>\<open>create_route\<close> call that fails is passed on to the
  caller as it is.
\<close>

theorem create_route_error_is_client_error:
  assumes "sdk region = Inr client"
    and "ec2_create_route_table client vpc_id (remote w) = (Inr rtb, s1)"
  shows "(ec2_create_route client (RouteTableId rtb) ''0.0.0.0/0'' igw_id s1 = (Inr False, s2)
            \<longrightarrow> (\<exists>raised. fst (create_public_route_table sdk region vpc_id igw_id rtb_name w) = Inl raised
                    \<and> exception_class raised = ''ClientError''
                    \<and> raised = ClientError
                        \<lparr>Code = ''CreateRouteError'', Message = ''Could not create the route'',
                         ResponseMetadata = None\<rparr> ''CreateRoute''))
       \<and> (ec2_create_route client (RouteTableId rtb) ''0.0.0.0/0'' igw_id s1 = (Inl e, s2)
            \<longrightarrow> create_public_route_table sdk region vpc_id igw_id rtb_name w
                  = (Inl e,
                     \<lparr>calls = calls w @ [(region, CreateRouteTable vpc_id),
                                (region, CreateRoute (RouteTableId rtb) ''0.0.0.0/0'' igw_id)],
                      remote = s2\<rparr>))"
  using assms
  by (simp add: create_public_route_table_def and_then_def request_def return_value_def
      raise_error_def create_route_error_def boto3_client_def Let_def)

text \<open>
  The claim as written fails: the exception raised on a false flag and the exception
  of a \<^verbatim>\<open>create_route\<close> call the provider rejects (here because the route table is
  full) have the same class, \<^verbatim>\<open>ClientError\<close>, so an \<^verbatim>\<open>except ClientError\<close> clause
  takes both.
\<close>

theorem create_route_error_counterexample:
  "fst (ec2_create_route fake_ec2 ''rtb-1'' ''0.0.0.0/0'' ''igw-1'' (remote false_flag_world))
     = Inr False
   \<and> fst (create_public_route_table fake_boto3 ''us-west-1'' ''vpc-1'' ''igw-1'' None false_flag_world)
       = Inl create_route_error
   \<and> fst (ec2_create_route quota_ec2 ''rtb-1'' ''0.0.0.0/0'' ''igw-1'' (remote empty_world))
       = Inl route_limit_exceeded
   \<and> fst (create_public_route_table quota_boto3 ''us-west-1'' ''vpc-1'' ''igw-1'' None empty_world)
       = Inl route_limit_exceeded
   \<and> exception_class
        (projl (fst (create_public_route_table fake_boto3 ''us-west-1'' ''vpc-1'' ''igw-1'' None
                       false_flag_world)))
       = exception_class
           (projl (fst (create_public_route_table quota_boto3 ''us-west-1'' ''vpc-1'' ''igw-1'' None
                          empty_world)))"
  by (simp add: script_defs double_defs regions)

theorem create_route_error_is_client_error_witness:
  "(\<exists>raised. fst (create_public_route_table fake_boto3 ''us-west-1'' ''vpc-1'' ''igw-1'' None
                    false_flag_world) = Inl raised
      \<and> exception_class raised = ''ClientError''
      \<and> raised = ClientError
           \<lparr>Code = ''CreateRouteError'', Message = ''Could not create the route'',
            ResponseMetadata = None\<rparr> ''CreateRoute'')
   \<and> create_public_route_table quota_boto3 ''us-west-1'' ''vpc-1'' ''igw-1'' None false_flag_world
     = (Inl route_limit_exceeded,
        \<lparr>calls = [(''us-west-1'', CreateRouteTable ''vpc-1''),
                  (''us-west-1'', CreateRoute ''rtb-1'' ''0.0.0.0/0'' ''igw-1'')],
         remote = (remote false_flag_world)
           \<lparr>fake_rtbs := [(\<lparr>RouteTableId = ''rtb-1'', Associations = []\<rparr>, [])]\<rparr>\<rparr>)"
proof -
  let ?s1 = "(remote false_flag_world)
          \<lparr>fake_rtbs := [(\<lparr>RouteTableId = ''rtb-1'', Associations = []\<rparr>, [])]\<rparr>"
  let ?rtb = "\<lparr>RouteTableId = ''rtb-1'', Associations = []\<rparr>"
  have t1: "ec2_create_route_table fake_ec2 ''vpc-1'' (remote false_flag_world) = (Inr ?rtb, ?s1)"
    by (simp add: double_defs)
  have t2: "ec2_create_route_table quota_ec2 ''vpc-1'' (remote false_flag_world) = (Inr ?rtb, ?s1)"
    by (simp add: double_defs)
  have r1: "ec2_create_route fake_ec2 (RouteTableId ?rtb) ''0.0.0.0/0'' ''igw-1'' ?s1
     = (Inr False, ?s1)"
    by (simp add: double_defs)
  have r2: "ec2_create_route quota_ec2 (RouteTableId ?rtb) ''0.0.0.0/0'' ''igw-1'' ?s1
     = (Inl route_limit_exceeded, ?s1)"
    by (simp add: double_defs)
  have c: "calls false_flag_world = []" by (simp add: false_flag_world_def)
  note inst = create_route_error_is_client_error
    [where region = "''us-west-1''" and igw_id = "''igw-1''" and rtb_name = None]
  from inst [where sdk = fake_boto3, OF fake_region t1, THEN conjunct1, THEN mp, OF r1]
  have 1: "\<exists>raised. fst (create_public_route_table fake_boto3 ''us-west-1'' ''vpc-1'' ''igw-1'' None
                    false_flag_world) = Inl raised
      \<and> exception_class raised = ''ClientError''
      \<and> raised = ClientError
           \<lparr>Code = ''CreateRouteError'', Message = ''Could not create the route'',
            ResponseMetadata = None\<rparr> ''CreateRoute''" .
  from inst [where sdk = quota_boto3, OF quota_region t2, THEN conjunct2, THEN mp, OF r2] c
  have 2: "create_public_route_table quota_boto3 ''us-west-1'' ''vpc-1'' ''igw-1'' None false_flag_world
     = (Inl route_limit_exceeded,
        \<lparr>calls = [(''us-west-1'', CreateRouteTable ''vpc-1''),
                  (''us-west-1'', CreateRoute ''rtb-1'' ''0.0.0.0/0'' ''igw-1'')],
         remote = ?s1\<rparr>)"
    by simp
  from 1 2 show ?thesis by (intro conjI)
qed

text \<open>
  Claim C5. Every call of \<open>associate_public_route\<close> that returns has made two calls
  that both succeeded, in this order: \<open>AssociateRouteTable\<close> for the route table and
  the subnet, whose association id is the value returned, and then
  \<open>ModifySubnetAttribute\<close> for the same subnet with \<open>MapPublicIpOnLaunch\<close> true.
\<close>

theorem associate_public_route_both_effects:
  assumes "associate_public_route sdk region rtb_id subnet_id w = (Inr association_id, w')"
  shows "\<exists>client s1. sdk region = Inr client
            \<and> ec2_associate_route_table client rtb_id subnet_id (remote w)
                 = (Inr association_id, s1)
            \<and> ec2_modify_subnet_attribute client subnet_id (MapPublicIpOnLaunch True) s1
                 = (Inr (), remote w')
            \<and> calls w' = calls w @ [(region, AssociateRouteTable rtb_id subnet_id),
                  (region, ModifySubnetAttribute subnet_id (MapPublicIpOnLaunch True))]"
  using assms
  by (auto simp: associate_public_route_def and_then_def request_def return_value_def
      boto3_client_def split: prod.splits sum.splits)

theorem associate_public_route_witness:
  "associate_public_route fake_boto3 ''us-west-1'' ''rtb-1'' ''subnet-9'' built_world
     = (Inr ''rtbassoc-subnet-9'', snd (associate_public_route fake_boto3 ''us-west-1'' ''rtb-1''
          ''subnet-9'' built_world))
   \<and> (\<exists>client s1. fake_boto3 ''us-west-1'' = Inr client
            \<and> ec2_associate_route_table client ''rtb-1'' ''subnet-9'' (remote built_world)
                 = (Inr ''rtbassoc-subnet-9'', s1)
            \<and> ec2_modify_subnet_attribute client ''subnet-9'' (MapPublicIpOnLaunch True) s1
                 = (Inr (), remote (snd (associate_public_route fake_boto3 ''us-west-1'' ''rtb-1''
                      ''subnet-9'' built_world))))
   \<and> calls (snd (associate_public_route fake_boto3 ''us-west-1'' ''rtb-1'' ''subnet-9'' built_world))
       = [(''us-west-1'', AssociateRouteTable ''rtb-1'' ''subnet-9''),
          (''us-west-1'', ModifySubnetAttribute ''subnet-9'' (MapPublicIpOnLaunch True))]
   \<and> map (Associations \<circ> fst)
        (fake_rtbs (remote (snd (associate_public_route fake_boto3 ''us-west-1'' ''rtb-1''
           ''subnet-9'' built_world))))
       = [[\<lparr>RouteTableAssociationId = ''assoc-1''\<rparr>, \<lparr>RouteTableAssociationId = ''assoc-2''\<rparr>,
           \<lparr>RouteTableAssociationId = ''rtbassoc-subnet-9''\<rparr>]]"
proof -
  have run: "associate_public_route fake_boto3 ''us-west-1'' ''rtb-1'' ''subnet-9'' built_world
     = (Inr ''rtbassoc-subnet-9'', snd (associate_public_route fake_boto3 ''us-west-1'' ''rtb-1''
          ''subnet-9'' built_world))"
    by (simp add: script_defs double_defs regions)
  have c: "calls built_world = []" by (simp add: built_world_def)
  have a: "map (Associations \<circ> fst)
        (fake_rtbs (remote (snd (associate_public_route fake_boto3 ''us-west-1'' ''rtb-1''
           ''subnet-9'' built_world))))
       = [[\<lparr>RouteTableAssociationId = ''assoc-1''\<rparr>, \<lparr>RouteTableAssociationId = ''assoc-2''\<rparr>,
           \<lparr>RouteTableAssociationId = ''rtbassoc-subnet-9''\<rparr>]]"
    by (simp add: script_defs double_defs regions)
  from associate_public_route_both_effects [OF run] c
  have "\<exists>client s1. fake_boto3 ''us-west-1'' = Inr client
            \<and> ec2_associate_route_table client ''rtb-1'' ''subnet-9'' (remote built_world)
                 = (Inr ''rtbassoc-subnet-9'', s1)
            \<and> ec2_modify_subnet_attribute client ''subnet-9''
                 (MapPublicIpOnLaunch True) s1
                 = (Inr (), remote (snd (associate_public_route fake_boto3 ''us-west-1'' ''rtb-1''
                      ''subnet-9'' built_world)))"
    and "calls (snd (associate_public_route fake_boto3 ''us-west-1'' ''rtb-1'' ''subnet-9'' built_world))
       = [(''us-west-1'', AssociateRouteTable ''rtb-1'' ''subnet-9''),
          (''us-west-1'', ModifySubnetAttribute ''subnet-9'' (MapPublicIpOnLaunch True))]"
    by auto
  with run a show ?thesis by (intro conjI)
qed

text \<open>
  Claim C6. A call of \<open>create_vpc\<close> returns a VPC exactly when the provider answers
  these calls without an exception, each from the state the one before left, and they
  are the calls made, in this order: \<open>CreateVpc\<close>, whose VPC is the one returned; the
  wait for that VPC to be available, once, exactly when \<open>wait\<close> is true;
  \<open>CreateTags\<close> exactly when a name is given; and last, once, whatever \<open>wait\<close> and
  the name are, \<open>ModifyVpcAttribute\<close> with \<open>EnableDnsHostnames\<close> true, which the
  provider receives in the state the wait and the tagging left and whose state is the
  one the function leaves.
\<close>

theorem create_vpc_calls:
  "create_vpc sdk region cidr_block vpc_name wait w = (Inr vpc, w') \<longleftrightarrow>
     (\<exists>client s1 s2 s3 s4.
        sdk region = Inr client
      \<and> ec2_create_vpc client cidr_block (remote w) = (Inr vpc, s1)
      \<and> (if wait then ec2_wait_vpc_available client [VpcId vpc] s1 = (Inr (), s2) else s2 = s1)
      \<and> (case vpc_name of
            Some name \<Rightarrow> ec2_create_tags client [VpcId vpc] [(''Name'', name)] s2 = (Inr (), s3)
          | None \<Rightarrow> s3 = s2)
      \<and> ec2_modify_vpc_attribute client (VpcId vpc) (EnableDnsHostnames True) s3 = (Inr (), s4)
      \<and> w' = \<lparr>calls = calls w
                  @ [(region, CreateVpc cidr_block)]
                  @ (if wait then [(region, WaitVpcAvailable [VpcId vpc])] else [])
                  @ (case vpc_name of
                       None \<Rightarrow> []
                     | Some name \<Rightarrow> [(region, CreateTags [VpcId vpc] [(''Name'', name)])])
                  @ [(region, ModifyVpcAttribute (VpcId vpc) (EnableDnsHostnames True))],
               remote = s4\<rparr>)"
  by (cases wait; cases vpc_name)
    (auto simp: create_vpc_def and_then_def request_def return_value_def boto3_client_def Let_def
      split: prod.splits sum.splits)

theorem create_vpc_calls_witness:
  "create_vpc fake_boto3 ''us-west-1'' ''10.1.0.0/16'' None True empty_world
     = (Inr \<lparr>VpcId = ''vpc-10.1.0.0/16''\<rparr>,
        \<lparr>calls = [(''us-west-1'', CreateVpc ''10.1.0.0/16''),
                  (''us-west-1'', WaitVpcAvailable [''vpc-10.1.0.0/16'']),
                  (''us-west-1'', ModifyVpcAttribute ''vpc-10.1.0.0/16'' (EnableDnsHostnames True))],
         remote = (remote empty_world)\<lparr>fake_vpcs := [(''vpc-10.1.0.0/16'', ''10.1.0.0/16'')]\<rparr>\<rparr>)
   \<and> create_vpc fake_boto3 ''us-west-1'' ''10.1.0.0/16'' (Some ''vpc-boto3'') False empty_world
     = (Inr \<lparr>VpcId = ''vpc-10.1.0.0/16''\<rparr>,
        \<lparr>calls = [(''us-west-1'', CreateVpc ''10.1.0.0/16''),
                  (''us-west-1'', CreateTags [''vpc-10.1.0.0/16''] [(''Name'', ''vpc-boto3'')]),
                  (''us-west-1'', ModifyVpcAttribute ''vpc-10.1.0.0/16'' (EnableDnsHostnames True))],
         remote = (remote empty_world)\<lparr>fake_vpcs := [(''vpc-10.1.0.0/16'', ''10.1.0.0/16'')]\<rparr>\<rparr>)"
proof -
  let ?s = "(remote empty_world)\<lparr>fake_vpcs := [(''vpc-10.1.0.0/16'', ''10.1.0.0/16'')]\<rparr>"
  let ?vpc = "\<lparr>VpcId = ''vpc-10.1.0.0/16''\<rparr>"
  have created: "ec2_create_vpc fake_ec2 ''10.1.0.0/16'' (remote empty_world) = (Inr ?vpc, ?s)"
    by (simp add: double_defs)
  have waited: "ec2_wait_vpc_available fake_ec2 [VpcId ?vpc] ?s = (Inr (), ?s)"
    by (simp add: double_defs)
  have tagged: "ec2_create_tags fake_ec2 [VpcId ?vpc] [(''Name'', ''vpc-boto3'')] ?s = (Inr (), ?s)"
    by (simp add: double_defs)
  have modified: "ec2_modify_vpc_attribute fake_ec2 (VpcId ?vpc) (EnableDnsHostnames True) ?s
      = (Inr (), ?s)"
    by (simp add: double_defs)
  have c: "calls empty_world = []" by (simp add: empty_world_def)
  have 1: "create_vpc fake_boto3 ''us-west-1'' ''10.1.0.0/16'' None True empty_world
     = (Inr ?vpc,
        \<lparr>calls = calls empty_world
                  @ [(''us-west-1'', CreateVpc ''10.1.0.0/16'')]
                  @ (if True then [(''us-west-1'', WaitVpcAvailable [VpcId ?vpc])] else [])
                  @ (case None :: string option of
                       None \<Rightarrow> []
                     | Some name \<Rightarrow> [(''us-west-1'', CreateTags [VpcId ?vpc] [(''Name'', name)])])
                  @ [(''us-west-1'', ModifyVpcAttribute (VpcId ?vpc) (EnableDnsHostnames True))],
         remote = ?s\<rparr>)"
    unfolding create_vpc_calls
    using fake_region created waited modified by (intro exI [of _ fake_ec2] exI [of _ ?s]) simp
  have 2: "create_vpc fake_boto3 ''us-west-1'' ''10.1.0.0/16'' (Some ''vpc-boto3'') False empty_world
     = (Inr ?vpc,
        \<lparr>calls = calls empty_world
                  @ [(''us-west-1'', CreateVpc ''10.1.0.0/16'')]
                  @ (if False then [(''us-west-1'', WaitVpcAvailable [VpcId ?vpc])] else [])
                  @ (case Some ''vpc-boto3'' of
                       None \<Rightarrow> []
                     | Some name \<Rightarrow> [(''us-west-1'', CreateTags [VpcId ?vpc] [(''Name'', name)])])
                  @ [(''us-west-1'', ModifyVpcAttribute (VpcId ?vpc) (EnableDnsHostnames True))],
         remote = ?s\<rparr>)"
    unfolding create_vpc_calls
    using fake_region created tagged modified by (intro exI [of _ fake_ec2] exI [of _ ?s]) simp
  from 1 2 c show ?thesis by simp
qed

section \<open>Teardown\<close>




subsection \<open>The calls of a run\<close>

lemma delete_vpc_resources_steps:
  "delete_vpc_resources boto3 region cidr_block =
     and_then (get_vpc_id boto3 region cidr_block) (\<lambda>found.
     case found of
       None \<Rightarrow> return_value ()
     | Some vpc_id \<Rightarrow>
         and_then (boto3_client boto3 region) (\<lambda>client.
         and_then (get_vpc_internet_gateway_id boto3 region vpc_id) (\<lambda>igw.
         and_then
           (case igw of
              None \<Rightarrow> return_value ()
            | Some igw_id \<Rightarrow>
                and_then (get_public_route_table_info boto3 region igw_id) (\<lambda>rtb_info.
                and_then
                  (case rtb_info of
                     None \<Rightarrow> return_value ()
                   | Some rtb \<Rightarrow> delete_route_table_steps client region rtb) (\<lambda>_.
                delete_gateway_steps client region igw_id vpc_id))) (\<lambda>_.
         delete_subnets_and_vpc boto3 client region vpc_id))))"
  unfolding delete_vpc_resources_def delete_route_table_steps_def delete_gateway_steps_def
    delete_subnets_steps_def delete_subnets_and_vpc_def Let_def
  by (rule refl)

lemma follows_client: "follows (boto3_client boto3 region) w []"
  by (simp add: follows_def boto3_client_def)

lemma and_then_Inr: "m w = (Inr x, w1) \<Longrightarrow> and_then m f w = f x w1"
  by (simp add: and_then_def)

lemma and_then_Inl: "m w = (Inl e, w1) \<Longrightarrow> and_then m f w = (Inl e, w1)"
  by (simp add: and_then_def)

lemma follows_return: "follows (return_value x) w []"
  by (simp add: follows_def return_value_def)

lemma follows_request: "follows (request region c answer) w [(region, c)]"
  by (simp add: follows_def request_def split: prod.splits)

lemma follows_and_then:
  assumes m: "follows m w p"
    and f: "\<And>x. fst (m w) = Inr x \<Longrightarrow> follows (f x) (snd (m w)) q"
  shows "follows (and_then m f) w (p @ q)"
proof (cases "m w")
  case (Pair r0 w0)
  from m Pair obtain tr where tr: "calls w0 = calls w @ tr" "prefix tr p" "\<not> isl r0 \<longrightarrow> tr = p"
    by (auto simp: follows_def)
  show ?thesis
  proof (cases r0)
    case (Inl e)
    with Pair tr show ?thesis
      by (auto simp: follows_def and_then_def intro: prefix_order.trans)
  next
    case (Inr x)
    with f [of x] Pair have "follows (f x) w0 q" by simp
    then obtain tr2 where tr2: "calls (snd (f x w0)) = calls w0 @ tr2" "prefix tr2 q"
      "\<not> isl (fst (f x w0)) \<longrightarrow> tr2 = q"
      by (auto simp: follows_def)
    from Inr tr have "tr = p" by simp
    with Pair Inr tr tr2 show ?thesis
      by (auto simp: follows_def and_then_def)
  qed
qed

lemma follows_and_then_nil:
  assumes "follows m w p" and "\<And>x. fst (m w) = Inr x \<Longrightarrow> follows (f x) (snd (m w)) []"
  shows "follows (and_then m f) w p"
  using follows_and_then [OF assms] by simp

lemma for_each_Cons: "for_each body (x # xs) = and_then (body x) (\<lambda>_. for_each body xs)"
  by (rule ext) (simp add: and_then_def split: prod.splits sum.splits)

lemma follows_for_each:
  assumes "\<And>x w. follows (body x) w (ev x)"
  shows "follows (for_each body xs) w (concat (map ev xs))"
proof (induction xs arbitrary: w)
  case Nil
  show ?case by (simp add: follows_def)
next
  case (Cons x xs)
  show ?case
    unfolding for_each_Cons using assms Cons.IH
    by (simp add: follows_and_then)
qed

lemma followsD:
  assumes "follows m w plan" and "m w = (r, w')"
  shows "\<exists>tr. calls w' = calls w @ tr \<and> prefix tr plan \<and> (\<not> isl r \<longrightarrow> tr = plan)"
  using assms by (simp add: follows_def)

text \<open>A sequence either stops in its first part or goes on from the world that part left.\<close>

lemma and_then_run:
  assumes run: "and_then m f w = (r, w')" and m: "follows m w p"
  obtains (stopped) tr where "isl r" and "calls w' = calls w @ tr" and "prefix tr p"
        | (went_on) x w1 where "m w = (Inr x, w1)" and "calls w1 = calls w @ p"
            and "f x w1 = (r, w')"
proof (cases "m w")
  case (Pair r0 w0)
  from followsD [OF m Pair] obtain tr where
    tr: "calls w0 = calls w @ tr" "prefix tr p" "\<not> isl r0 \<longrightarrow> tr = p"
    by blast
  show thesis
  proof (cases r0)
    case (Inl e)
    with run Pair have "r = Inl e" "w' = w0" by (simp_all add: and_then_def)
    with tr show thesis by (intro stopped [of tr]) simp_all
  next
    case (Inr x)
    with run Pair have "f x w0 = (r, w')" by (simp add: and_then_def)
    moreover from Inr tr have "calls w0 = calls w @ p" by simp
    ultimately show thesis using Pair Inr by (intro went_on [of x w0]) simp_all
  qed
qed

lemma follows_get_vpc_id:
  "follows (get_vpc_id boto3 region cidr_block) w [(region, DescribeVpcs [(''cidr'', [cidr_block])])]"
proof -
  have "follows (get_vpc_id boto3 region cidr_block) w
      ([] @ [(region, DescribeVpcs [(''cidr'', [cidr_block])])] @ [])"
    unfolding get_vpc_id_def
    by (intro follows_and_then follows_client follows_request)
      (simp add: follows_return split: list.splits)
  then show ?thesis by simp
qed

lemma follows_get_igw:
  "follows (get_vpc_internet_gateway_id boto3 region vpc_id) w
     [(region, DescribeInternetGateways [(''attachment.vpc-id'', [vpc_id])])]"
proof -
  have "follows (get_vpc_internet_gateway_id boto3 region vpc_id) w
      ([] @ [(region, DescribeInternetGateways [(''attachment.vpc-id'', [vpc_id])])] @ [])"
    unfolding get_vpc_internet_gateway_id_def
    by (intro follows_and_then follows_client follows_request)
      (simp add: follows_return split: list.splits)
  then show ?thesis by simp
qed

lemma follows_get_rtb:
  "follows (get_public_route_table_info boto3 region igw_id) w
     [(region, DescribeRouteTables [(''route.gateway-id'', [igw_id])])]"
proof -
  have "follows (get_public_route_table_info boto3 region igw_id) w
      ([] @ [(region, DescribeRouteTables [(''route.gateway-id'', [igw_id])])] @ [])"
    unfolding get_public_route_table_info_def
    by (intro follows_and_then follows_client follows_request)
      (simp add: follows_return split: list.splits)
  then show ?thesis by simp
qed

lemma follows_get_subnets:
  "follows (get_subnets boto3 region vpc_id) w [(region, DescribeSubnets [(''vpc-id'', [vpc_id])])]"
proof -
  have "follows (get_subnets boto3 region vpc_id) w
      ([] @ [(region, DescribeSubnets [(''vpc-id'', [vpc_id])])] @ [])"
    unfolding get_subnets_def
    by (intro follows_and_then follows_client follows_request) (simp add: follows_return)
  then show ?thesis by simp
qed

lemma follows_route_table_steps:
  "follows (delete_route_table_steps client region rtb) w (route_table_calls region rtb)"
proof -
  have loop: "follows
      (for_each
         (\<lambda>association.
            request region (DisassociateRouteTable (RouteTableAssociationId association))
              (ec2_disassociate_route_table client (RouteTableAssociationId association)))
         (Associations rtb)) w
      (concat (map (\<lambda>a. [(region, DisassociateRouteTable (RouteTableAssociationId a))]) (Associations rtb)))"
    by (rule follows_for_each) (rule follows_request)
  have flat: "concat (map (\<lambda>a. [(region, DisassociateRouteTable (RouteTableAssociationId a))]) xs)
      = map (\<lambda>a. (region, DisassociateRouteTable (RouteTableAssociationId a))) xs" for xs
    by (induction xs) simp_all
  have rest: "follows
      (and_then (request region (DeleteTags [RouteTableId rtb]) (ec2_delete_tags client [RouteTableId rtb]))
         (\<lambda>_. request region (DeleteRouteTable (RouteTableId rtb))
                 (ec2_delete_route_table client (RouteTableId rtb)))) w'
      ([(region, DeleteTags [RouteTableId rtb])] @ [(region, DeleteRouteTable (RouteTableId rtb))])" for w'
    by (intro follows_and_then follows_request)
  show ?thesis
    unfolding delete_route_table_steps_def route_table_calls_def Let_def
    using follows_and_then [OF loop [unfolded flat], OF rest] by simp
qed

lemma follows_gateway_steps:
  "follows (delete_gateway_steps client region igw_id vpc_id) w (gateway_calls region igw_id vpc_id)"
proof -
  have "follows (delete_gateway_steps client region igw_id vpc_id) w
     ([(region, DeleteTags [igw_id])] @ [(region, DetachInternetGateway igw_id vpc_id)]
       @ [(region, DeleteInternetGateway igw_id)])"
    unfolding delete_gateway_steps_def Let_def
    by (intro follows_and_then follows_request)
  then show ?thesis by (simp add: gateway_calls_def)
qed

lemma follows_subnets_steps:
  "follows (delete_subnets_steps client region subnets) w (subnet_calls region subnets)"
proof -
  have body: "follows
      (and_then (request region (DeleteTags [SubnetId s]) (ec2_delete_tags client [SubnetId s]))
         (\<lambda>_. request region (DeleteSubnet (SubnetId s)) (ec2_delete_subnet client (SubnetId s)))) w'
      ([(region, DeleteTags [SubnetId s])] @ [(region, DeleteSubnet (SubnetId s))])" for s w'
    by (intro follows_and_then follows_request)
  show ?thesis
    unfolding delete_subnets_steps_def subnet_calls_def Let_def
    by (rule follows_for_each) (use body in simp)
qed

text \<open>The last block: the subnets found are the ones deleted.\<close>

lemma subnets_and_vpc_run:
  assumes run: "delete_subnets_and_vpc boto3 client region vpc_id w = (r, w')"
  shows "\<exists>tr subnets. calls w' = calls w @ tr
           \<and> prefix tr (subnets_and_vpc_calls region vpc_id subnets)
           \<and> (\<not> isl r \<longrightarrow> tr = subnets_and_vpc_calls region vpc_id subnets
                 \<and> (\<exists>w1. get_subnets boto3 region vpc_id w = (Inr subnets, w1)))"
  using run [unfolded delete_subnets_and_vpc_def Let_def] follows_get_subnets
proof (cases rule: and_then_run)
  case (stopped tr)
  from stopped(3)
  have "prefix tr ([(region, DescribeSubnets [(''vpc-id'', [vpc_id])])]
      @ (subnet_calls region [] @ [(region, DeleteTags [vpc_id]), (region, DeleteVpc vpc_id)]))"
    by (rule prefix_prefix)
  then have "prefix tr (subnets_and_vpc_calls region vpc_id [])"
    by (simp add: subnets_and_vpc_calls_def)
  with stopped show ?thesis by blast
next
  case (went_on subnets w1)
  have "follows
      (and_then (delete_subnets_steps client region subnets) (\<lambda>_.
       and_then (request region (DeleteTags [vpc_id]) (ec2_delete_tags client [vpc_id])) (\<lambda>_.
       request region (DeleteVpc vpc_id) (ec2_delete_vpc client vpc_id)))) w1
      (subnet_calls region subnets @ [(region, DeleteTags [vpc_id])] @ [(region, DeleteVpc vpc_id)])"
    by (intro follows_and_then follows_request follows_subnets_steps)
  from followsD [OF this went_on(3)] obtain tr where
    tr: "calls w' = calls w1 @ tr"
      "prefix tr (subnet_calls region subnets @ [(region, DeleteTags [vpc_id])] @ [(region, DeleteVpc vpc_id)])"
      "\<not> isl r \<longrightarrow> tr = subnet_calls region subnets @ [(region, DeleteTags [vpc_id])] @ [(region, DeleteVpc vpc_id)]"
    by blast
  let ?tr = "(region, DescribeSubnets [(''vpc-id'', [vpc_id])]) # tr"
  from tr went_on have "calls w' = calls w @ ?tr"
    and "prefix ?tr (subnets_and_vpc_calls region vpc_id subnets)"
    and "\<not> isl r \<longrightarrow> ?tr = subnets_and_vpc_calls region vpc_id subnets"
    by (simp_all add: subnets_and_vpc_calls_def)
  with went_on(1) show ?thesis by blast
qed

text \<open>The gateway block and what follows it.\<close>

lemma gateway_and_rest_run:
  assumes run: "and_then (delete_gateway_steps client region igw_id vpc_id)
                  (\<lambda>_. delete_subnets_and_vpc boto3 client region vpc_id) w = (r, w')"
  shows "\<exists>tr subnets. calls w' = calls w @ tr
           \<and> prefix tr (gateway_calls region igw_id vpc_id @ subnets_and_vpc_calls region vpc_id subnets)
           \<and> (\<not> isl r \<longrightarrow>
                 tr = gateway_calls region igw_id vpc_id @ subnets_and_vpc_calls region vpc_id subnets
                 \<and> (\<exists>w1 w2. calls w1 = calls w @ gateway_calls region igw_id vpc_id
                       \<and> get_subnets boto3 region vpc_id w1 = (Inr subnets, w2)))"
  using run follows_gateway_steps
proof (cases rule: and_then_run)
  case (stopped tr)
  from stopped(3)
  have "prefix tr (gateway_calls region igw_id vpc_id @ subnets_and_vpc_calls region vpc_id [])"
    by (rule prefix_prefix)
  with stopped show ?thesis by blast
next
  case (went_on x w1)
  from subnets_and_vpc_run [OF went_on(3)] obtain tr subnets where
    tr: "calls w' = calls w1 @ tr" "prefix tr (subnets_and_vpc_calls region vpc_id subnets)"
      "\<not> isl r \<longrightarrow> tr = subnets_and_vpc_calls region vpc_id subnets
          \<and> (\<exists>w2. get_subnets boto3 region vpc_id w1 = (Inr subnets, w2))"
    by blast
  let ?tr = "gateway_calls region igw_id vpc_id @ tr"
  from tr went_on have "calls w' = calls w @ ?tr"
    and "prefix ?tr (gateway_calls region igw_id vpc_id @ subnets_and_vpc_calls region vpc_id subnets)"
    and "\<not> isl r \<longrightarrow>
           ?tr = gateway_calls region igw_id vpc_id @ subnets_and_vpc_calls region vpc_id subnets
           \<and> (\<exists>w1 w2. calls w1 = calls w @ gateway_calls region igw_id vpc_id
                 \<and> get_subnets boto3 region vpc_id w1 = (Inr subnets, w2))"
    by auto
  then show ?thesis by blast
qed

lemma and_then_assoc:
  "and_then (and_then m f) g = and_then m (\<lambda>x. and_then (f x) g)"
  by (rule ext) (simp add: and_then_def split: prod.splits sum.splits)

lemma and_then_return: "and_then (return_value x) f = f x"
  by (rule ext) (simp add: and_then_def return_value_def)

text \<open>The route table block and what follows it.\<close>

lemma route_table_and_rest_run:
  assumes run: "and_then (delete_route_table_steps client region rtb)
                  (\<lambda>_. and_then (delete_gateway_steps client region igw_id vpc_id)
                         (\<lambda>_. delete_subnets_and_vpc boto3 client region vpc_id)) w = (r, w')"
  shows "\<exists>tr subnets. calls w' = calls w @ tr
           \<and> prefix tr (route_table_calls region rtb @ gateway_calls region igw_id vpc_id
                          @ subnets_and_vpc_calls region vpc_id subnets)"
  using run follows_route_table_steps
proof (cases rule: and_then_run)
  case (stopped tr)
  from stopped(3)
  have "prefix tr (route_table_calls region rtb @ gateway_calls region igw_id vpc_id
                          @ subnets_and_vpc_calls region vpc_id [])"
    by (rule prefix_prefix)
  with stopped show ?thesis by blast
next
  case (went_on x w1)
  from gateway_and_rest_run [OF went_on(3)] obtain tr subnets where
    tr: "calls w' = calls w1 @ tr"
      "prefix tr (gateway_calls region igw_id vpc_id @ subnets_and_vpc_calls region vpc_id subnets)"
    by blast
  let ?tr = "route_table_calls region rtb @ tr"
  from tr went_on have "calls w' = calls w @ ?tr"
    and "prefix ?tr (route_table_calls region rtb @ gateway_calls region igw_id vpc_id
                          @ subnets_and_vpc_calls region vpc_id subnets)"
    by simp_all
  then show ?thesis by blast
qed

text \<open>
  Every run of the teardown, whether it returns or raises, makes the first calls of a
  teardown without exceptions; a route table in that plan is the one the lookups found.
\<close>

lemma teardown_run:
  assumes run: "delete_vpc_resources boto3 region cidr_block w = (r, w')"
  shows "\<exists>tr vpc_id igw rtb subnets.
           calls w' = calls w @ tr
           \<and> prefix tr (teardown_calls region cidr_block vpc_id igw rtb subnets)
           \<and> (\<forall>t. rtb = Some t \<longrightarrow>
                 (\<exists>w1 igw_id w2 w3.
                    get_vpc_id boto3 region cidr_block w = (Inr (Some vpc_id), w1)
                    \<and> igw = Some igw_id
                    \<and> get_vpc_internet_gateway_id boto3 region vpc_id w1 = (Inr (Some igw_id), w2)
                    \<and> get_public_route_table_info boto3 region igw_id w2 = (Inr (Some t), w3)))"
  using run [unfolded delete_vpc_resources_steps] follows_get_vpc_id
proof (cases rule: and_then_run)
  case (stopped tr)
  from stopped(3) have "prefix tr (teardown_calls region cidr_block [] None None [])"
    by (rule prefix_order.trans) (simp add: teardown_calls_def)
  with stopped show ?thesis by blast
next
  case vpc: (went_on found w1)
  show ?thesis
  proof (cases found)
    case None
    with vpc have "w' = w1" by (simp add: return_value_def)
    with vpc have "calls w' = calls w @ [(region, DescribeVpcs [(''cidr'', [cidr_block])])]"
      and "prefix [(region, DescribeVpcs [(''cidr'', [cidr_block])])]
             (teardown_calls region cidr_block [] None None [])"
      by (simp_all add: teardown_calls_def)
    then show ?thesis by blast
  next
    case found: (Some vpc_id)
    show ?thesis
    proof (cases "boto3 region")
      case (Inl e)
      then have "boto3_client boto3 region w1 = (Inl e, w1)"
        by (simp add: boto3_client_def)
      with vpc(3) found have "w' = w1" by (simp add: and_then_Inl)
      with vpc have "calls w' = calls w @ [(region, DescribeVpcs [(''cidr'', [cidr_block])])]"
        and "prefix [(region, DescribeVpcs [(''cidr'', [cidr_block])])]
               (teardown_calls region cidr_block [] None None [])"
        by (simp_all add: teardown_calls_def)
      then show ?thesis by blast
    next
    case (Inr client)
    then have built: "boto3_client boto3 region w1 = (Inr client, w1)"
      by (simp add: boto3_client_def)
    with vpc(3) found have body:
      "and_then (get_vpc_internet_gateway_id boto3 region vpc_id) (\<lambda>igw.
         and_then
           (case igw of
              None \<Rightarrow> return_value ()
            | Some igw_id \<Rightarrow>
                and_then (get_public_route_table_info boto3 region igw_id) (\<lambda>rtb_info.
                and_then
                  (case rtb_info of
                     None \<Rightarrow> return_value ()
                   | Some rtb \<Rightarrow> delete_route_table_steps client region rtb) (\<lambda>_.
                delete_gateway_steps client region igw_id vpc_id))) (\<lambda>_.
         delete_subnets_and_vpc boto3 client region vpc_id)) w1 = (r, w')"
      by (simp add: and_then_Inr)
    from body follows_get_igw show ?thesis
    proof (cases rule: and_then_run)
      case (stopped tr)
      let ?tr = "(region, DescribeVpcs [(''cidr'', [cidr_block])]) # tr"
      from stopped(3) have "prefix ?tr [(region, DescribeVpcs [(''cidr'', [cidr_block])]),
          (region, DescribeInternetGateways [(''attachment.vpc-id'', [vpc_id])])]"
        by simp
      then have "prefix ?tr (teardown_calls region cidr_block vpc_id None None [])"
        by (rule prefix_order.trans) (simp add: teardown_calls_def)
      moreover from stopped vpc have "calls w' = calls w @ ?tr" by simp
      ultimately show ?thesis by blast
    next
      case igw: (went_on igw w2)
      show ?thesis
      proof (cases igw)
        case None
        with igw(3) have "delete_subnets_and_vpc boto3 client region vpc_id w2 = (r, w')"
          by (simp add: and_then_return)
        from subnets_and_vpc_run [OF this] obtain tr subnets where
          tr: "calls w' = calls w2 @ tr" "prefix tr (subnets_and_vpc_calls region vpc_id subnets)"
          by blast
        let ?tr = "(region, DescribeVpcs [(''cidr'', [cidr_block])])
            # (region, DescribeInternetGateways [(''attachment.vpc-id'', [vpc_id])]) # tr"
        from tr vpc igw have "calls w' = calls w @ ?tr"
          and "prefix ?tr (teardown_calls region cidr_block vpc_id None None subnets)"
          by (simp_all add: teardown_calls_def)
        then show ?thesis by blast
      next
        case (Some igw_id)
        with igw(3) have rest:
          "and_then (get_public_route_table_info boto3 region igw_id) (\<lambda>rtb_info.
             and_then
               (case rtb_info of
                  None \<Rightarrow> return_value ()
                | Some rtb \<Rightarrow> delete_route_table_steps client region rtb) (\<lambda>_.
             and_then (delete_gateway_steps client region igw_id vpc_id) (\<lambda>_.
             delete_subnets_and_vpc boto3 client region vpc_id))) w2 = (r, w')"
          by (simp add: and_then_assoc)
        from rest follows_get_rtb show ?thesis
        proof (cases rule: and_then_run)
          case (stopped tr)
          let ?tr = "(region, DescribeVpcs [(''cidr'', [cidr_block])])
            # (region, DescribeInternetGateways [(''attachment.vpc-id'', [vpc_id])]) # tr"
          from stopped(3) have "prefix ?tr [(region, DescribeVpcs [(''cidr'', [cidr_block])]),
              (region, DescribeInternetGateways [(''attachment.vpc-id'', [vpc_id])]),
              (region, DescribeRouteTables [(''route.gateway-id'', [igw_id])])]"
            by simp
          then have "prefix ?tr (teardown_calls region cidr_block vpc_id (Some igw_id) None [])"
            by (rule prefix_order.trans) (simp add: teardown_calls_def)
          moreover from stopped vpc igw have "calls w' = calls w @ ?tr" by simp
          ultimately show ?thesis by blast
        next
          case rtb: (went_on rtb_info w3)
          show ?thesis
          proof (cases rtb_info)
            case None
            with rtb(3) have "and_then (delete_gateway_steps client region igw_id vpc_id) (\<lambda>_.
                delete_subnets_and_vpc boto3 client region vpc_id) w3 = (r, w')"
              by (simp add: and_then_return)
            from gateway_and_rest_run [OF this] obtain tr subnets where
              tr: "calls w' = calls w3 @ tr"
                "prefix tr (gateway_calls region igw_id vpc_id
                              @ subnets_and_vpc_calls region vpc_id subnets)"
              by blast
            let ?tr = "(region, DescribeVpcs [(''cidr'', [cidr_block])])
              # (region, DescribeInternetGateways [(''attachment.vpc-id'', [vpc_id])])
              # (region, DescribeRouteTables [(''route.gateway-id'', [igw_id])]) # tr"
            from tr vpc igw rtb have "calls w' = calls w @ ?tr"
              and "prefix ?tr (teardown_calls region cidr_block vpc_id (Some igw_id) None subnets)"
              by (simp_all add: teardown_calls_def)
            then show ?thesis by blast
          next
            case (Some t)
            with rtb(3) have "and_then (delete_route_table_steps client region t) (\<lambda>_.
                and_then (delete_gateway_steps client region igw_id vpc_id) (\<lambda>_.
                delete_subnets_and_vpc boto3 client region vpc_id)) w3 = (r, w')"
              by simp
            from route_table_and_rest_run [OF this] obtain tr subnets where
              tr: "calls w' = calls w3 @ tr"
                "prefix tr (route_table_calls region t @ gateway_calls region igw_id vpc_id
                              @ subnets_and_vpc_calls region vpc_id subnets)"
              by blast
            let ?tr = "(region, DescribeVpcs [(''cidr'', [cidr_block])])
              # (region, DescribeInternetGateways [(''attachment.vpc-id'', [vpc_id])])
              # (region, DescribeRouteTables [(''route.gateway-id'', [igw_id])]) # tr"
            from tr vpc igw rtb have "calls w' = calls w @ ?tr"
              and "prefix ?tr (teardown_calls region cidr_block vpc_id (Some igw_id) (Some t) subnets)"
              by (simp_all add: teardown_calls_def)
            moreover from vpc(1) igw(1) rtb(1) found \<open>igw = Some igw_id\<close> Some
            have "\<exists>w1 g w2 w3.
                    get_vpc_id boto3 region cidr_block w = (Inr (Some vpc_id), w1)
                    \<and> Some igw_id = Some g
                    \<and> get_vpc_internet_gateway_id boto3 region vpc_id w1 = (Inr (Some g), w2)
                    \<and> get_public_route_table_info boto3 region g w2 = (Inr (Some t), w3)"
              by blast
            ultimately show ?thesis by blast
          qed
        qed
      qed
    qed
  qed
qed
qed

text \<open>Where a call stands in a plan that has it once.\<close>

lemma split_unique:
  assumes "pre @ x # post = xs @ y # ys" and "P x"
    and "\<forall>z \<in> set xs. \<not> P z" and "\<forall>z \<in> set ys. \<not> P z"
  shows "pre = xs \<and> x = y \<and> post = ys"
  using assms
proof (induction xs arbitrary: pre)
  case Nil
  then show ?case by (cases pre) auto
next
  case (Cons a xs)
  then show ?case by (cases pre) auto
qed

lemma prefix_split:
  assumes "prefix tr plan" and "tr = pre @ x # post"
  obtains zs where "plan = pre @ x # (post @ zs)"
  using assms by (auto simp: prefix_def)

lemma delete_route_table_in_plan:
  assumes plan: "teardown_calls region cidr_block vpc_id igw rtb subnets
                   = pre @ (reg, DeleteRouteTable rtb_id) # post"
  shows "\<exists>igw_id t. igw = Some igw_id \<and> rtb = Some t \<and> RouteTableId t = rtb_id
           \<and> (\<forall>a \<in> set (Associations t).
                  (region, DisassociateRouteTable (RouteTableAssociationId a)) \<in> set pre)"
proof -
  let ?P = "\<lambda>e :: string \<times> call. \<exists>x. snd e = DeleteRouteTable x"
  have mem: "(reg, DeleteRouteTable rtb_id) \<in> set (teardown_calls region cidr_block vpc_id igw rtb subnets)"
    by (simp add: plan)
  show ?thesis
  proof (cases igw)
    case None
    with mem show ?thesis
      by (auto simp: teardown_calls_def subnets_and_vpc_calls_def subnet_calls_def)
  next
    case igw: (Some igw_id)
    show ?thesis
    proof (cases rtb)
      case None
      with mem igw show ?thesis
        by (auto simp: teardown_calls_def gateway_calls_def subnets_and_vpc_calls_def subnet_calls_def)
    next
      case (Some t)
      let ?xs = "[(region, DescribeVpcs [(''cidr'', [cidr_block])]),
                  (region, DescribeInternetGateways [(''attachment.vpc-id'', [vpc_id])]),
                  (region, DescribeRouteTables [(''route.gateway-id'', [igw_id])])]
                 @ map (\<lambda>a. (region, DisassociateRouteTable (RouteTableAssociationId a))) (Associations t)
                 @ [(region, DeleteTags [RouteTableId t])]"
      let ?ys = "gateway_calls region igw_id vpc_id @ subnets_and_vpc_calls region vpc_id subnets"
      from plan igw Some
      have eq: "pre @ (reg, DeleteRouteTable rtb_id) # post
                  = ?xs @ (region, DeleteRouteTable (RouteTableId t)) # ?ys"
        by (simp add: teardown_calls_def route_table_calls_def)
      have xs: "\<forall>z \<in> set ?xs. \<not> ?P z" by auto
      have ys: "\<forall>z \<in> set ?ys. \<not> ?P z"
        by (auto simp: gateway_calls_def subnets_and_vpc_calls_def subnet_calls_def)
      have "?P (reg, DeleteRouteTable rtb_id)" by simp
      from split_unique [OF eq, of ?P, OF this xs ys]
      have "pre = ?xs" and "RouteTableId t = rtb_id" by simp_all
      with igw Some show ?thesis by auto
    qed
  qed
qed

lemma delete_gateway_in_plan:
  assumes plan: "teardown_calls region cidr_block vpc_id igw rtb subnets
                   = pre @ (reg, DeleteInternetGateway igw_id) # post"
  shows "(region, DetachInternetGateway igw_id vpc_id) \<in> set pre"
proof -
  let ?P = "\<lambda>e :: string \<times> call. \<exists>x. snd e = DeleteInternetGateway x"
  have mem: "(reg, DeleteInternetGateway igw_id)
      \<in> set (teardown_calls region cidr_block vpc_id igw rtb subnets)"
    by (simp add: plan)
  show ?thesis
  proof (cases igw)
    case None
    with mem show ?thesis
      by (auto simp: teardown_calls_def subnets_and_vpc_calls_def subnet_calls_def)
  next
    case (Some g)
    let ?xs = "[(region, DescribeVpcs [(''cidr'', [cidr_block])]),
                (region, DescribeInternetGateways [(''attachment.vpc-id'', [vpc_id])]),
                (region, DescribeRouteTables [(''route.gateway-id'', [g])])]
               @ (case rtb of None \<Rightarrow> [] | Some t \<Rightarrow> route_table_calls region t)
               @ [(region, DeleteTags [g]), (region, DetachInternetGateway g vpc_id)]"
    let ?ys = "subnets_and_vpc_calls region vpc_id subnets"
    from plan Some
    have eq: "pre @ (reg, DeleteInternetGateway igw_id) # post
                = ?xs @ (region, DeleteInternetGateway g) # ?ys"
      by (simp add: teardown_calls_def gateway_calls_def)
    have xs: "\<forall>z \<in> set ?xs. \<not> ?P z"
      by (auto simp: route_table_calls_def split: option.splits)
    have ys: "\<forall>z \<in> set ?ys. \<not> ?P z"
      by (auto simp: subnets_and_vpc_calls_def subnet_calls_def)
    have "?P (reg, DeleteInternetGateway igw_id)" by simp
    from split_unique [OF eq, of ?P, OF this xs ys]
    have "pre = ?xs" and "g = igw_id" by simp_all
    then show ?thesis by simp
  qed
qed

lemma delete_vpc_in_plan:
  assumes plan: "teardown_calls region cidr_block vpc_id igw rtb subnets
                   = pre @ (reg, DeleteVpc v) # post"
  shows "post = []"
proof -
  let ?P = "\<lambda>e :: string \<times> call. \<exists>x. snd e = DeleteVpc x"
  let ?xs = "(region, DescribeVpcs [(''cidr'', [cidr_block])])
     # (region, DescribeInternetGateways [(''attachment.vpc-id'', [vpc_id])])
     # (case igw of
          None \<Rightarrow> []
        | Some igw_id \<Rightarrow>
            (region, DescribeRouteTables [(''route.gateway-id'', [igw_id])])
            # (case rtb of None \<Rightarrow> [] | Some t \<Rightarrow> route_table_calls region t)
            @ gateway_calls region igw_id vpc_id)
     @ (region, DescribeSubnets [(''vpc-id'', [vpc_id])]) # subnet_calls region subnets
     @ [(region, DeleteTags [vpc_id])]"
  from plan have eq: "pre @ (reg, DeleteVpc v) # post = ?xs @ (region, DeleteVpc vpc_id) # []"
    by (simp add: teardown_calls_def subnets_and_vpc_calls_def)
  have xs: "\<forall>z \<in> set ?xs. \<not> ?P z"
    by (auto simp: route_table_calls_def gateway_calls_def subnet_calls_def split: option.splits)
  have "?P (reg, DeleteVpc v)" by simp
  from split_unique [OF eq, of ?P, OF this xs] show ?thesis by simp
qed

text \<open>
  Claim C1. In every run of \<open>delete_vpc_resources\<close>, returning or raising, the calls
  it makes are ordered: a \<open>DeleteRouteTable\<close> call is for the route table the lookups
  of this run found, and comes after a \<open>DisassociateRouteTable\<close> call for every
  association that table has; a \<open>DeleteInternetGateway\<close> call comes after a
  \<open>DetachInternetGateway\<close> call for the same gateway; and no \<open>DeleteSubnet\<close> call
  comes after a \<open>DeleteVpc\<close> call.
\<close>

theorem teardown_ordering:
  assumes run: "delete_vpc_resources sdk region cidr_block w = (r, w')"
  shows "\<exists>tr. calls w' = calls w @ tr
     \<and> (\<forall>pre post reg rtb_id. tr = pre @ (reg, DeleteRouteTable rtb_id) # post \<longrightarrow>
          (\<exists>vpc_id w1 igw_id w2 rtb w3.
              get_vpc_id sdk region cidr_block w = (Inr (Some vpc_id), w1)
            \<and> get_vpc_internet_gateway_id sdk region vpc_id w1 = (Inr (Some igw_id), w2)
            \<and> get_public_route_table_info sdk region igw_id w2 = (Inr (Some rtb), w3)
            \<and> RouteTableId rtb = rtb_id
            \<and> (\<forall>a \<in> set (Associations rtb).
                  (region, DisassociateRouteTable (RouteTableAssociationId a)) \<in> set pre)))
     \<and> (\<forall>pre post reg igw_id. tr = pre @ (reg, DeleteInternetGateway igw_id) # post \<longrightarrow>
          (\<exists>vpc_id. (region, DetachInternetGateway igw_id vpc_id) \<in> set pre))
     \<and> (\<forall>pre post reg reg' vpc_id subnet_id. tr = pre @ (reg, DeleteVpc vpc_id) # post \<longrightarrow>
          (reg', DeleteSubnet subnet_id) \<notin> set post)"
proof -
  from teardown_run [OF run] obtain tr vpc_id igw rtb subnets where
    tr: "calls w' = calls w @ tr"
    and plan: "prefix tr (teardown_calls region cidr_block vpc_id igw rtb subnets)"
    and found: "\<forall>t. rtb = Some t \<longrightarrow>
                 (\<exists>w1 igw_id w2 w3.
                    get_vpc_id sdk region cidr_block w = (Inr (Some vpc_id), w1)
                    \<and> igw = Some igw_id
                    \<and> get_vpc_internet_gateway_id sdk region vpc_id w1 = (Inr (Some igw_id), w2)
                    \<and> get_public_route_table_info sdk region igw_id w2 = (Inr (Some t), w3))"
    by (elim exE conjE) (rule that)
  have a: "\<exists>vpc_id w1 igw_id w2 rtb w3.
              get_vpc_id sdk region cidr_block w = (Inr (Some vpc_id), w1)
            \<and> get_vpc_internet_gateway_id sdk region vpc_id w1 = (Inr (Some igw_id), w2)
            \<and> get_public_route_table_info sdk region igw_id w2 = (Inr (Some rtb), w3)
            \<and> RouteTableId rtb = rtb_id
            \<and> (\<forall>a \<in> set (Associations rtb).
                  (region, DisassociateRouteTable (RouteTableAssociationId a)) \<in> set pre)"
    if "tr = pre @ (reg, DeleteRouteTable rtb_id) # post" for pre post reg rtb_id
  proof -
    from plan that obtain zs where
      "teardown_calls region cidr_block vpc_id igw rtb subnets
         = pre @ (reg, DeleteRouteTable rtb_id) # (post @ zs)"
      by (rule prefix_split)
    from delete_route_table_in_plan [OF this] obtain t where
      t: "rtb = Some t" "RouteTableId t = rtb_id"
        "\<forall>a \<in> set (Associations t).
            (region, DisassociateRouteTable (RouteTableAssociationId a)) \<in> set pre"
      by blast
    from found t(1) have "\<exists>w1 igw_id w2 w3.
        get_vpc_id sdk region cidr_block w = (Inr (Some vpc_id), w1)
        \<and> igw = Some igw_id
        \<and> get_vpc_internet_gateway_id sdk region vpc_id w1 = (Inr (Some igw_id), w2)
        \<and> get_public_route_table_info sdk region igw_id w2 = (Inr (Some t), w3)"
      by simp
    then obtain w1 g w2 w3 where
      l: "get_vpc_id sdk region cidr_block w = (Inr (Some vpc_id), w1)"
        "get_vpc_internet_gateway_id sdk region vpc_id w1 = (Inr (Some g), w2)"
        "get_public_route_table_info sdk region g w2 = (Inr (Some t), w3)"
      by (elim exE conjE) (rule that)
    show ?thesis
      by (intro exI conjI) (rule l(1), rule l(2), rule l(3), rule t(2), rule t(3))
  qed
  have b: "\<exists>v. (region, DetachInternetGateway igw_id v) \<in> set pre"
    if "tr = pre @ (reg, DeleteInternetGateway igw_id) # post" for pre post reg igw_id
  proof -
    from plan that obtain zs where
      "teardown_calls region cidr_block vpc_id igw rtb subnets
         = pre @ (reg, DeleteInternetGateway igw_id) # (post @ zs)"
      by (rule prefix_split)
    from delete_gateway_in_plan [OF this] show ?thesis by blast
  qed
  have c: "(reg', DeleteSubnet subnet_id) \<notin> set post"
    if "tr = pre @ (reg, DeleteVpc v) # post" for pre post reg reg' v subnet_id
  proof -
    from plan that obtain zs where
      "teardown_calls region cidr_block vpc_id igw rtb subnets
         = pre @ (reg, DeleteVpc v) # (post @ zs)"
      by (rule prefix_split)
    from delete_vpc_in_plan [OF this] show ?thesis by simp
  qed
  show ?thesis
  proof (rule exI [of _ tr], intro conjI allI impI)
    show "calls w' = calls w @ tr" by (rule tr)
  next
    fix pre post reg rtb_id
    assume "tr = pre @ (reg, DeleteRouteTable rtb_id) # post"
    then show "\<exists>vpc_id w1 igw_id w2 rtb w3.
              get_vpc_id sdk region cidr_block w = (Inr (Some vpc_id), w1)
            \<and> get_vpc_internet_gateway_id sdk region vpc_id w1 = (Inr (Some igw_id), w2)
            \<and> get_public_route_table_info sdk region igw_id w2 = (Inr (Some rtb), w3)
            \<and> RouteTableId rtb = rtb_id
            \<and> (\<forall>a \<in> set (Associations rtb).
                  (region, DisassociateRouteTable (RouteTableAssociationId a)) \<in> set pre)"
      by (rule a)
  next
    fix pre post reg igw_id
    assume "tr = pre @ (reg, DeleteInternetGateway igw_id) # post"
    then show "\<exists>v. (region, DetachInternetGateway igw_id v) \<in> set pre"
      by (rule b)
  next
    fix pre post reg reg' v subnet_id
    assume "tr = pre @ (reg, DeleteVpc v) # post"
    then show "(reg', DeleteSubnet subnet_id) \<notin> set post"
      by (rule c)
  qed
qed

theorem teardown_ordering_witness:
  "delete_vpc_resources fake_boto3 ''us-west-1'' ''10.1.0.0/16'' built_world = (Inr (), torn_down_world)
   \<and> calls torn_down_world =
       [(''us-west-1'', DescribeVpcs [(''cidr'', [''10.1.0.0/16''])]),
        (''us-west-1'', DescribeInternetGateways [(''attachment.vpc-id'', [''vpc-1''])]),
        (''us-west-1'', DescribeRouteTables [(''route.gateway-id'', [''igw-1''])]),
        (''us-west-1'', DisassociateRouteTable ''assoc-1''),
        (''us-west-1'', DisassociateRouteTable ''assoc-2''),
        (''us-west-1'', DeleteTags [''rtb-1''])]
       @ (''us-west-1'', DeleteRouteTable ''rtb-1'')
       # [(''us-west-1'', DeleteTags [''igw-1'']),
          (''us-west-1'', DetachInternetGateway ''igw-1'' ''vpc-1'')]
       @ (''us-west-1'', DeleteInternetGateway ''igw-1'')
       # [(''us-west-1'', DescribeSubnets [(''vpc-id'', [''vpc-1''])]),
          (''us-west-1'', DeleteTags [''subnet-1'']),
          (''us-west-1'', DeleteSubnet ''subnet-1''),
          (''us-west-1'', DeleteTags [''subnet-2'']),
          (''us-west-1'', DeleteSubnet ''subnet-2''),
          (''us-west-1'', DeleteTags [''vpc-1''])]
       @ (''us-west-1'', DeleteVpc ''vpc-1'') # []
   \<and> (\<exists>vpc_id w1 igw_id w2 rtb w3.
          get_vpc_id fake_boto3 ''us-west-1'' ''10.1.0.0/16'' built_world = (Inr (Some vpc_id), w1)
        \<and> get_vpc_internet_gateway_id fake_boto3 ''us-west-1'' vpc_id w1 = (Inr (Some igw_id), w2)
        \<and> get_public_route_table_info fake_boto3 ''us-west-1'' igw_id w2 = (Inr (Some rtb), w3)
        \<and> RouteTableId rtb = ''rtb-1''
        \<and> (\<forall>a \<in> set (Associations rtb).
              (''us-west-1'', DisassociateRouteTable (RouteTableAssociationId a))
                \<in> set [(''us-west-1'', DescribeVpcs [(''cidr'', [''10.1.0.0/16''])]),
                        (''us-west-1'', DescribeInternetGateways [(''attachment.vpc-id'', [''vpc-1''])]),
                        (''us-west-1'', DescribeRouteTables [(''route.gateway-id'', [''igw-1''])]),
                        (''us-west-1'', DisassociateRouteTable ''assoc-1''),
                        (''us-west-1'', DisassociateRouteTable ''assoc-2''),
                        (''us-west-1'', DeleteTags [''rtb-1''])]))
   \<and> fst (get_public_route_table_info fake_boto3 ''us-west-1'' ''igw-1'' built_world)
       = Inr (Some \<lparr>RouteTableId = ''rtb-1'',
                     Associations = [\<lparr>RouteTableAssociationId = ''assoc-1''\<rparr>,
                                     \<lparr>RouteTableAssociationId = ''assoc-2''\<rparr>]\<rparr>)
   \<and> (\<exists>vpc_id. (''us-west-1'', DetachInternetGateway ''igw-1'' vpc_id)
          \<in> set [(''us-west-1'', DescribeVpcs [(''cidr'', [''10.1.0.0/16''])]),
                  (''us-west-1'', DescribeInternetGateways [(''attachment.vpc-id'', [''vpc-1''])]),
                  (''us-west-1'', DescribeRouteTables [(''route.gateway-id'', [''igw-1''])]),
                  (''us-west-1'', DisassociateRouteTable ''assoc-1''),
                  (''us-west-1'', DisassociateRouteTable ''assoc-2''),
                  (''us-west-1'', DeleteTags [''rtb-1'']),
                  (''us-west-1'', DeleteRouteTable ''rtb-1''),
                  (''us-west-1'', DeleteTags [''igw-1'']),
                  (''us-west-1'', DetachInternetGateway ''igw-1'' ''vpc-1'')])
   \<and> (''us-west-1'', DeleteSubnet ''subnet-1'') \<notin> set ([] :: (string \<times> call) list)
   \<and> (''us-west-1'', DeleteSubnet ''subnet-2'') \<notin> set ([] :: (string \<times> call) list)"
proof -
  let ?pre1 = "[(''us-west-1'', DescribeVpcs [(''cidr'', [''10.1.0.0/16''])]),
        (''us-west-1'', DescribeInternetGateways [(''attachment.vpc-id'', [''vpc-1''])]),
        (''us-west-1'', DescribeRouteTables [(''route.gateway-id'', [''igw-1''])]),
        (''us-west-1'', DisassociateRouteTable ''assoc-1''),
        (''us-west-1'', DisassociateRouteTable ''assoc-2''),
        (''us-west-1'', DeleteTags [''rtb-1''])]"
  let ?mid = "[(''us-west-1'', DeleteTags [''igw-1'']),
          (''us-west-1'', DetachInternetGateway ''igw-1'' ''vpc-1'')]"
  let ?last = "[(''us-west-1'', DescribeSubnets [(''vpc-id'', [''vpc-1''])]),
          (''us-west-1'', DeleteTags [''subnet-1'']),
          (''us-west-1'', DeleteSubnet ''subnet-1''),
          (''us-west-1'', DeleteTags [''subnet-2'']),
          (''us-west-1'', DeleteSubnet ''subnet-2''),
          (''us-west-1'', DeleteTags [''vpc-1''])]"
  have run: "delete_vpc_resources fake_boto3 ''us-west-1'' ''10.1.0.0/16'' built_world
      = (Inr (), torn_down_world)"
    by (simp add: torn_down_world_def delete_vpc_resources_def script_defs double_defs regions)
  have all_calls: "calls torn_down_world
      = ?pre1 @ (''us-west-1'', DeleteRouteTable ''rtb-1'')
        # ?mid @ (''us-west-1'', DeleteInternetGateway ''igw-1'')
        # ?last @ (''us-west-1'', DeleteVpc ''vpc-1'') # []"
    by (simp add: torn_down_world_def delete_vpc_resources_def script_defs double_defs regions)
  have start: "calls built_world = []" by (simp add: built_world_def)
  have found: "fst (get_public_route_table_info fake_boto3 ''us-west-1'' ''igw-1'' built_world)
       = Inr (Some \<lparr>RouteTableId = ''rtb-1'',
                     Associations = [\<lparr>RouteTableAssociationId = ''assoc-1''\<rparr>,
                                     \<lparr>RouteTableAssociationId = ''assoc-2''\<rparr>]\<rparr>)"
    by (simp add: script_defs double_defs regions)
  from teardown_ordering [OF run] obtain tr where
    tr: "calls torn_down_world = calls built_world @ tr"
    and a: "\<forall>pre post reg rtb_id. tr = pre @ (reg, DeleteRouteTable rtb_id) # post \<longrightarrow>
          (\<exists>vpc_id w1 igw_id w2 rtb w3.
              get_vpc_id fake_boto3 ''us-west-1'' ''10.1.0.0/16'' built_world = (Inr (Some vpc_id), w1)
            \<and> get_vpc_internet_gateway_id fake_boto3 ''us-west-1'' vpc_id w1 = (Inr (Some igw_id), w2)
            \<and> get_public_route_table_info fake_boto3 ''us-west-1'' igw_id w2 = (Inr (Some rtb), w3)
            \<and> RouteTableId rtb = rtb_id
            \<and> (\<forall>a \<in> set (Associations rtb).
                  (''us-west-1'', DisassociateRouteTable (RouteTableAssociationId a)) \<in> set pre))"
    and b: "\<forall>pre post reg igw_id. tr = pre @ (reg, DeleteInternetGateway igw_id) # post \<longrightarrow>
          (\<exists>vpc_id. (''us-west-1'', DetachInternetGateway igw_id vpc_id) \<in> set pre)"
    and c: "\<forall>pre post reg reg' vpc_id subnet_id. tr = pre @ (reg, DeleteVpc vpc_id) # post \<longrightarrow>
          (reg', DeleteSubnet subnet_id) \<notin> set post"
    by (elim exE conjE) (rule that)
  from tr start all_calls have tr_a: "tr = ?pre1 @ (''us-west-1'', DeleteRouteTable ''rtb-1'')
        # (?mid @ (''us-west-1'', DeleteInternetGateway ''igw-1'')
        # ?last @ (''us-west-1'', DeleteVpc ''vpc-1'') # [])"
    by simp
  then have tr_b: "tr = (?pre1 @ (''us-west-1'', DeleteRouteTable ''rtb-1'') # ?mid)
        @ (''us-west-1'', DeleteInternetGateway ''igw-1'')
        # (?last @ (''us-west-1'', DeleteVpc ''vpc-1'') # [])"
    by simp
  from tr_a have tr_c: "tr = (?pre1 @ (''us-west-1'', DeleteRouteTable ''rtb-1'')
        # ?mid @ (''us-west-1'', DeleteInternetGateway ''igw-1'') # ?last)
        @ (''us-west-1'', DeleteVpc ''vpc-1'') # []"
    by simp
  note ra = a [rule_format, OF tr_a]
  note rb = b [rule_format, OF tr_b]
  note rc1 = c [rule_format, OF tr_c, of "''us-west-1''" "''subnet-1''"]
  note rc2 = c [rule_format, OF tr_c, of "''us-west-1''" "''subnet-2''"]
  from rb have rb': "\<exists>vpc_id. (''us-west-1'', DetachInternetGateway ''igw-1'' vpc_id)
          \<in> set (?pre1 @ (''us-west-1'', DeleteRouteTable ''rtb-1'') # ?mid)" .
  show ?thesis
    apply (intro conjI)
          apply (rule run)
         apply (rule all_calls)
        apply (rule ra)
       apply (rule found)
      apply (use rb' in simp)
     apply (rule rc1)
    apply (rule rc2)
    done
qed

subsection \<open>Teardowns the provider lets through\<close>

lemma subnets_steps_removed:
  "subnets_removed client subnets s = Some s' \<Longrightarrow>
   delete_subnets_steps client region subnets \<lparr>calls = c, remote = s\<rparr>
     = (Inr (), \<lparr>calls = c @ subnet_calls region subnets, remote = s'\<rparr>)"
proof (induction subnets arbitrary: c s)
  case Nil
  then show ?case by (simp add: delete_subnets_steps_def subnet_calls_def)
next
  case (Cons x xs)
  from Cons.prems obtain s1 s2 where
    tags: "ec2_delete_tags client [SubnetId x] s = (Inr (), s1)"
    and deleted: "ec2_delete_subnet client (SubnetId x) s1 = (Inr (), s2)"
    and rest: "subnets_removed client xs s2 = Some s'"
    by (auto split: prod.splits sum.splits)
  from Cons.IH [OF rest]
  have "delete_subnets_steps client region xs
      \<lparr>calls = c @ [(region, DeleteTags [SubnetId x]), (region, DeleteSubnet (SubnetId x))],
       remote = s2\<rparr>
     = (Inr (),
        \<lparr>calls = (c @ [(region, DeleteTags [SubnetId x]), (region, DeleteSubnet (SubnetId x))])
                  @ subnet_calls region xs,
         remote = s'\<rparr>)" .
  with tags deleted show ?case
    by (simp add: delete_subnets_steps_def subnet_calls_def and_then_def request_def Let_def)
qed

text \<open>
  Claim C7. The teardown of a VPC that has no gateway and no subnet (the gateway
  lookup and the subnet lookup both answer with an empty list) makes, after its three
  lookups, the \<open>DeleteTags\<close> call for the VPC and, the provider having accepted it, the
  \<open>DeleteVpc\<close> call, and no other call: no gateway, route table or subnet is deleted,
  detached or disassociated. It ends as the \<open>DeleteVpc\<close> call ends and leaves the
  provider in the state that call left.
\<close>

theorem teardown_of_bare_vpc:
  assumes "sdk region = Inr client"
    and "ec2_describe_vpcs client [(''cidr'', [cidr_block])] (remote w) = (Inr (v # vs), s1)"
    and "ec2_describe_internet_gateways client [(''attachment.vpc-id'', [VpcId v])] s1 = (Inr [], s2)"
    and "ec2_describe_subnets client [(''vpc-id'', [VpcId v])] s2 = (Inr [], s3)"
    and "ec2_delete_tags client [VpcId v] s3 = (Inr (), s4)"
    and "ec2_delete_vpc client (VpcId v) s4 = (r, s5)"
  shows "delete_vpc_resources sdk region cidr_block w
           = (r,
              \<lparr>calls = calls w
                  @ [(region, DescribeVpcs [(''cidr'', [cidr_block])]),
                     (region, DescribeInternetGateways [(''attachment.vpc-id'', [VpcId v])]),
                     (region, DescribeSubnets [(''vpc-id'', [VpcId v])]),
                     (region, DeleteTags [VpcId v]),
                     (region, DeleteVpc (VpcId v))],
               remote = s5\<rparr>)"
  using assms
  by (simp add: delete_vpc_resources_steps get_vpc_id_def get_vpc_internet_gateway_id_def
      get_subnets_def delete_subnets_and_vpc_def delete_subnets_steps_def and_then_def
      request_def return_value_def boto3_client_def)

theorem teardown_of_bare_vpc_witness:
  "fake_boto3 ''us-west-1'' = Inr fake_ec2
   \<and> ec2_describe_vpcs fake_ec2 [(''cidr'', [''10.1.0.0/16''])] (remote bare_world)
       = (Inr [\<lparr>VpcId = ''vpc-1''\<rparr>], remote bare_world)
   \<and> ec2_describe_internet_gateways fake_ec2 [(''attachment.vpc-id'', [''vpc-1''])] (remote bare_world)
       = (Inr [], remote bare_world)
   \<and> ec2_describe_subnets fake_ec2 [(''vpc-id'', [''vpc-1''])] (remote bare_world)
       = (Inr [], remote bare_world)
   \<and> ec2_delete_tags fake_ec2 [''vpc-1''] (remote bare_world) = (Inr (), remote bare_world)
   \<and> ec2_delete_vpc fake_ec2 ''vpc-1'' (remote bare_world)
       = (Inr (), (remote bare_world)\<lparr>fake_vpcs := []\<rparr>)
   \<and> delete_vpc_resources fake_boto3 ''us-west-1'' ''10.1.0.0/16'' bare_world
       = (Inr (),
          \<lparr>calls = [(''us-west-1'', DescribeVpcs [(''cidr'', [''10.1.0.0/16''])]),
                    (''us-west-1'', DescribeInternetGateways [(''attachment.vpc-id'', [''vpc-1''])]),
                    (''us-west-1'', DescribeSubnets [(''vpc-id'', [''vpc-1''])]),
                    (''us-west-1'', DeleteTags [''vpc-1'']),
                    (''us-west-1'', DeleteVpc ''vpc-1'')],
           remote = (remote bare_world)\<lparr>fake_vpcs := []\<rparr>\<rparr>)"
proof -
  let ?v = "\<lparr>VpcId = ''vpc-1''\<rparr>"
  have vpc: "ec2_describe_vpcs fake_ec2 [(''cidr'', [''10.1.0.0/16''])] (remote bare_world)
       = (Inr (?v # []), remote bare_world)"
    by (simp add: double_defs)
  have igw: "ec2_describe_internet_gateways fake_ec2 [(''attachment.vpc-id'', [VpcId ?v])]
      (remote bare_world) = (Inr [], remote bare_world)"
    by (simp add: double_defs)
  have subnets: "ec2_describe_subnets fake_ec2 [(''vpc-id'', [VpcId ?v])] (remote bare_world)
       = (Inr [], remote bare_world)"
    by (simp add: double_defs)
  have tags: "ec2_delete_tags fake_ec2 [VpcId ?v] (remote bare_world) = (Inr (), remote bare_world)"
    by (simp add: double_defs)
  have deleted: "ec2_delete_vpc fake_ec2 (VpcId ?v) (remote bare_world)
       = (Inr (), (remote bare_world)\<lparr>fake_vpcs := []\<rparr>)"
    by (simp add: double_defs)
  have c: "calls bare_world = []" by (simp add: bare_world_def)
  from teardown_of_bare_vpc
    [where sdk = fake_boto3 and region = "''us-west-1''", OF fake_region vpc igw subnets tags deleted]
    fake_region vpc igw subnets tags deleted c
  show ?thesis by simp
qed

text \<open>
  Claim C10. When \<open>delete_vpc_resources\<close> finds the VPC and its gateway but the route
  table lookup answers with an empty list, it makes no call that disassociates or
  deletes a route table or removes its tags, and goes on with the gateway: the calls
  after the three lookups are the gateway's \<open>DeleteTags\<close>, \<open>DetachInternetGateway\<close>
  and \<open>DeleteInternetGateway\<close>, the subnet lookup, \<open>DeleteTags\<close> and \<open>DeleteSubnet\<close>
  for each subnet that lookup returned, in its order, and the VPC's \<open>DeleteTags\<close> and
  \<open>DeleteVpc\<close>, the provider having accepted each call before the last. The teardown
  ends as the \<open>DeleteVpc\<close> call ends and leaves the provider in the state that call
  left.
\<close>

theorem teardown_without_route_table:
  assumes "sdk region = Inr client"
    and "ec2_describe_vpcs client [(''cidr'', [cidr_block])] (remote w) = (Inr (v # vs), s1)"
    and "ec2_describe_internet_gateways client [(''attachment.vpc-id'', [VpcId v])] s1
           = (Inr (g # gs), s2)"
    and "ec2_describe_route_tables client [(''route.gateway-id'', [InternetGatewayId g])] s2
           = (Inr [], s3)"
    and "ec2_delete_tags client [InternetGatewayId g] s3 = (Inr (), s4)"
    and "ec2_detach_internet_gateway client (InternetGatewayId g) (VpcId v) s4 = (Inr (), s5)"
    and "ec2_delete_internet_gateway client (InternetGatewayId g) s5 = (Inr (), s6)"
    and "ec2_describe_subnets client [(''vpc-id'', [VpcId v])] s6 = (Inr subnets, s7)"
    and "subnets_removed client subnets s7 = Some s8"
    and "ec2_delete_tags client [VpcId v] s8 = (Inr (), s9)"
    and "ec2_delete_vpc client (VpcId v) s9 = (r, s10)"
  shows "delete_vpc_resources sdk region cidr_block w
           = (r,
              \<lparr>calls = calls w
                  @ [(region, DescribeVpcs [(''cidr'', [cidr_block])]),
                     (region, DescribeInternetGateways [(''attachment.vpc-id'', [VpcId v])]),
                     (region, DescribeRouteTables [(''route.gateway-id'', [InternetGatewayId g])]),
                     (region, DeleteTags [InternetGatewayId g]),
                     (region, DetachInternetGateway (InternetGatewayId g) (VpcId v)),
                     (region, DeleteInternetGateway (InternetGatewayId g)),
                     (region, DescribeSubnets [(''vpc-id'', [VpcId v])])]
                  @ concat (map (\<lambda>x. [(region, DeleteTags [SubnetId x]),
                                        (region, DeleteSubnet (SubnetId x))]) subnets)
                  @ [(region, DeleteTags [VpcId v]), (region, DeleteVpc (VpcId v))],
               remote = s10\<rparr>)"
  using assms
  by (simp add: delete_vpc_resources_steps get_vpc_id_def get_vpc_internet_gateway_id_def
      get_public_route_table_info_def get_subnets_def delete_gateway_steps_def
      delete_subnets_and_vpc_def subnets_steps_removed subnet_calls_def and_then_def
      request_def return_value_def boto3_client_def)

theorem teardown_without_route_table_witness:
  "fake_boto3 ''us-west-1'' = Inr fake_ec2
   \<and> ec2_describe_vpcs fake_ec2 [(''cidr'', [''10.1.0.0/16''])] (remote unrouted_world)
       = (Inr [\<lparr>VpcId = ''vpc-1''\<rparr>], remote unrouted_world)
   \<and> ec2_describe_internet_gateways fake_ec2 [(''attachment.vpc-id'', [''vpc-1''])]
        (remote unrouted_world)
       = (Inr [\<lparr>InternetGatewayId = ''igw-1''\<rparr>], remote unrouted_world)
   \<and> ec2_describe_route_tables fake_ec2 [(''route.gateway-id'', [''igw-1''])] (remote unrouted_world)
       = (Inr [], remote unrouted_world)
   \<and> ec2_describe_subnets fake_ec2 [(''vpc-id'', [''vpc-1''])]
        ((remote unrouted_world)\<lparr>fake_igws := []\<rparr>)
       = (Inr [\<lparr>SubnetId = ''subnet-1''\<rparr>, \<lparr>SubnetId = ''subnet-2''\<rparr>],
          (remote unrouted_world)\<lparr>fake_igws := []\<rparr>)
   \<and> subnets_removed fake_ec2 [\<lparr>SubnetId = ''subnet-1''\<rparr>, \<lparr>SubnetId = ''subnet-2''\<rparr>]
        ((remote unrouted_world)\<lparr>fake_igws := []\<rparr>)
       = Some ((remote unrouted_world)\<lparr>fake_igws := [], fake_subnets := []\<rparr>)
   \<and> delete_vpc_resources fake_boto3 ''us-west-1'' ''10.1.0.0/16'' unrouted_world
       = (Inr (),
          \<lparr>calls = [(''us-west-1'', DescribeVpcs [(''cidr'', [''10.1.0.0/16''])]),
                    (''us-west-1'', DescribeInternetGateways [(''attachment.vpc-id'', [''vpc-1''])]),
                    (''us-west-1'', DescribeRouteTables [(''route.gateway-id'', [''igw-1''])]),
                    (''us-west-1'', DeleteTags [''igw-1'']),
                    (''us-west-1'', DetachInternetGateway ''igw-1'' ''vpc-1''),
                    (''us-west-1'', DeleteInternetGateway ''igw-1''),
                    (''us-west-1'', DescribeSubnets [(''vpc-id'', [''vpc-1''])]),
                    (''us-west-1'', DeleteTags [''subnet-1'']),
                    (''us-west-1'', DeleteSubnet ''subnet-1''),
                    (''us-west-1'', DeleteTags [''subnet-2'']),
                    (''us-west-1'', DeleteSubnet ''subnet-2''),
                    (''us-west-1'', DeleteTags [''vpc-1'']),
                    (''us-west-1'', DeleteVpc ''vpc-1'')],
           remote = (remote unrouted_world)
             \<lparr>fake_vpcs := [], fake_igws := [], fake_subnets := []\<rparr>\<rparr>)"
proof -
  let ?v = "\<lparr>VpcId = ''vpc-1''\<rparr>"
  let ?g = "\<lparr>InternetGatewayId = ''igw-1''\<rparr>"
  let ?subnets = "[\<lparr>SubnetId = ''subnet-1''\<rparr>, \<lparr>SubnetId = ''subnet-2''\<rparr>]"
  let ?s = "remote unrouted_world"
  let ?s5 = "?s\<lparr>fake_igws := [(''igw-1'', [])]\<rparr>"
  let ?s6 = "?s\<lparr>fake_igws := []\<rparr>"
  let ?s8 = "?s\<lparr>fake_igws := [], fake_subnets := []\<rparr>"
  let ?s10 = "?s\<lparr>fake_vpcs := [], fake_igws := [], fake_subnets := []\<rparr>"
  have vpc: "ec2_describe_vpcs fake_ec2 [(''cidr'', [''10.1.0.0/16''])] ?s = (Inr (?v # []), ?s)"
    by (simp add: double_defs)
  have igw: "ec2_describe_internet_gateways fake_ec2 [(''attachment.vpc-id'', [VpcId ?v])] ?s
      = (Inr (?g # []), ?s)"
    by (simp add: double_defs)
  have rtb: "ec2_describe_route_tables fake_ec2 [(''route.gateway-id'', [InternetGatewayId ?g])] ?s
      = (Inr [], ?s)"
    by (simp add: double_defs)
  have gtags: "ec2_delete_tags fake_ec2 [InternetGatewayId ?g] ?s = (Inr (), ?s)"
    by (simp add: double_defs)
  have detached: "ec2_detach_internet_gateway fake_ec2 (InternetGatewayId ?g) (VpcId ?v) ?s
      = (Inr (), ?s5)"
    by (simp add: double_defs)
  have gdeleted: "ec2_delete_internet_gateway fake_ec2 (InternetGatewayId ?g) ?s5 = (Inr (), ?s6)"
    by (simp add: double_defs)
  have subnets: "ec2_describe_subnets fake_ec2 [(''vpc-id'', [VpcId ?v])] ?s6 = (Inr ?subnets, ?s6)"
    by (simp add: double_defs)
  have removed: "subnets_removed fake_ec2 ?subnets ?s6 = Some ?s8"
    by (simp add: double_defs)
  have vtags: "ec2_delete_tags fake_ec2 [VpcId ?v] ?s8 = (Inr (), ?s8)"
    by (simp add: double_defs)
  have vdeleted: "ec2_delete_vpc fake_ec2 (VpcId ?v) ?s8 = (Inr (), ?s10)"
    by (simp add: double_defs)
  have c: "calls unrouted_world = []" by (simp add: unrouted_world_def)
  from teardown_without_route_table
    [where sdk = fake_boto3 and region = "''us-west-1''",
     OF fake_region vpc igw rtb gtags detached gdeleted subnets removed vtags vdeleted]
    fake_region vpc igw rtb subnets removed c
  show ?thesis by simp
qed

end
